theory Spec2Isabelle
  imports Complex_Main
begin

section \<open>The routing gate (src/App.tsx)\<close>

text \<open>
  The session user that \<open>useAuth()\<close> hands out. The \<open>approved\<close> flag is the one the
  commented-out check in \<open>AuthenticatedLayout\<close> would have read
  (\<open>user.user_metadata?.approved\<close>).
\<close>

record auth_user =
  uid :: string
  email :: string
  approved :: bool

text \<open>The value of the auth context: \<open>const { user, loading } = useAuth()\<close>.\<close>

record auth_context =
  user :: "auth_user option"
  loading :: bool

datatype gate_state = St_loading | St_unauthenticated | St_authenticated

definition gate_state_of :: "auth_context \<Rightarrow> gate_state" where
  "gate_state_of a =
     (if loading a then St_loading
      else case user a of None \<Rightarrow> St_unauthenticated | Some u \<Rightarrow> St_authenticated)"

datatype page =
  Login | Signup | Dashboard | NewProject | ProjectList | ProjectDetail | EditProject
  | UserManagement | Notifications | Files | Reports | Profile | Settings

text \<open>
  What a component returns: the loading placeholder, a \<open><Navigate to=.. state={{from}} replace>\<close>
  element, or content.
\<close>

datatype 'c rendered =
  LoadingScreen
  | Navigate string "string option" bool
  | Show 'c

definition AuthenticatedLayout :: "auth_context \<Rightarrow> string \<Rightarrow> 'c \<Rightarrow> 'c rendered" where
  "AuthenticatedLayout a pathname children =
     (if loading a then LoadingScreen
      else case user a of
        None \<Rightarrow> Navigate ''/login'' (Some pathname) False
      | Some u \<Rightarrow> Show children)"

definition ProtectedRoute :: "auth_context \<Rightarrow> string \<Rightarrow> 'c \<Rightarrow> 'c rendered" where
  "ProtectedRoute a pathname children = AuthenticatedLayout a pathname children"

text \<open>
  The route table of \<open>App\<close>, in the order of the source. A path is kept as its list of
  segments; a segment that starts with a colon is a parameter. \<open>guarded\<close> says that the
  route is nested under the layout route whose element is \<open><ProtectedRoute />\<close>.
\<close>

datatype route_element = PageEl page | NavigateEl string bool

record route =
  pattern :: "string list"
  element :: route_element
  guarded :: bool

definition routes :: "route list" where
  "routes =
    [ \<lparr>pattern = [''login''], element = PageEl Login, guarded = False\<rparr>,
      \<lparr>pattern = [''signup''], element = PageEl Signup, guarded = False\<rparr>,
      \<lparr>pattern = [''dashboard''], element = PageEl Dashboard, guarded = True\<rparr>,
      \<lparr>pattern = [''projects'', ''new''], element = PageEl NewProject, guarded = True\<rparr>,
      \<lparr>pattern = [''projects''], element = PageEl ProjectList, guarded = True\<rparr>,
      \<lparr>pattern = [''projects'', '':id''], element = PageEl ProjectDetail, guarded = True\<rparr>,
      \<lparr>pattern = [''projects'', '':id'', ''edit''], element = PageEl EditProject, guarded = True\<rparr>,
      \<lparr>pattern = [''admin'', ''users''], element = PageEl UserManagement, guarded = True\<rparr>,
      \<lparr>pattern = [''notifications''], element = PageEl Notifications, guarded = True\<rparr>,
      \<lparr>pattern = [''projects'', '':id'', ''files''], element = PageEl Files, guarded = True\<rparr>,
      \<lparr>pattern = [''reports''], element = PageEl Reports, guarded = True\<rparr>,
      \<lparr>pattern = [''profile''], element = PageEl Profile, guarded = True\<rparr>,
      \<lparr>pattern = [''admin'', ''settings''], element = PageEl Settings, guarded = True\<rparr>,
      \<lparr>pattern = [], element = NavigateEl ''/dashboard'' True, guarded = False\<rparr> ]"

fun seg_matches :: "string \<Rightarrow> string \<Rightarrow> bool" where
  "seg_matches (c # cs) s = (if c = CHR '':'' then s \<noteq> [] else c # cs = s)"
| "seg_matches [] s = (s = [])"

fun path_matches :: "string list \<Rightarrow> string list \<Rightarrow> bool" where
  "path_matches [] [] = True"
| "path_matches (p # ps) (s # ss) = (seg_matches p s \<and> path_matches ps ss)"
| "path_matches _ _ = False"

text \<open>
  The router picks one route for a request. In this table the only overlap is
  \<open>/projects/new\<close> against \<open>/projects/:id\<close>, where the static route both ranks higher
  and comes first, so the first match in source order is the route the router picks.
  A request is given by the segments of its path as the router compares them (trailing
  slash dropped, letter case already folded). \<open>pathname_of\<close> rebuilds the path from these
  segments; it is \<open>location.pathname\<close> for a path typed in that form, and for a path
  typed with other letter case or a trailing slash only the \<open>from\<close> state of the
  redirect differs, not its target.
\<close>

fun match_route :: "route list \<Rightarrow> string list \<Rightarrow> route option" where
  "match_route [] segs = None"
| "match_route (r # rs) segs =
     (if path_matches (pattern r) segs then Some r else match_route rs segs)"

fun pathname_of :: "string list \<Rightarrow> string" where
  "pathname_of [] = ''/''"
| "pathname_of [s] = ''/'' @ s"
| "pathname_of (s # ss) = ''/'' @ s @ pathname_of ss"

text \<open>
  \<open>App\<close> on a request. A route outside the layout renders its element whatever the auth
  context is. A route under the layout renders \<open><ProtectedRoute />\<close>, which \<open>App\<close> gives
  no children: the content an admitted request gets is the \<open>children\<close> value of the gate,
  here \<open>None\<close> (undefined). An unmatched request renders nothing, which is \<open>None\<close> at the
  top level.
\<close>

definition render_element :: "route_element \<Rightarrow> page option rendered" where
  "render_element e =
     (case e of PageEl p \<Rightarrow> Show (Some p) | NavigateEl to rep \<Rightarrow> Navigate to None rep)"

definition App :: "auth_context \<Rightarrow> string list \<Rightarrow> page option rendered option" where
  "App a segs =
     (case match_route routes segs of
        None \<Rightarrow> None
      | Some r \<Rightarrow>
          if guarded r then Some (ProtectedRoute a (pathname_of segs) None)
          else Some (render_element (element r)))"

definition protected_request :: "string list \<Rightarrow> bool" where
  "protected_request segs =
     (case match_route routes segs of None \<Rightarrow> False | Some r \<Rightarrow> guarded r)"

fun redirects_to :: "'c rendered option \<Rightarrow> string \<Rightarrow> bool" where
  "redirects_to (Some (Navigate to from rep)) target = (to = target)"
| "redirects_to _ target = False"

section \<open>JavaScript values\<close>

text \<open>
  A JavaScript number, as far as the code looks at it: \<open>NaN\<close>, the two infinities, or a
  finite value. \<open>x || 0\<close> yields 0 for the falsy numbers \<open>NaN\<close> and 0 and \<open>x\<close> otherwise.
\<close>

datatype jsnum = NaN | Num rat | PosInfinity | NegInfinity

definition truthy_num :: "jsnum \<Rightarrow> bool" where
  "truthy_num x = (x \<noteq> NaN \<and> x \<noteq> Num 0)"

definition or_zero :: "jsnum \<Rightarrow> jsnum" where
  "or_zero x = (if truthy_num x then x else Num 0)"

text \<open>
  A value of type \<open>string | undefined\<close>, such as a cell of a parsed CSV row (\<open>None\<close> when
  the row has no such column) or a route parameter: the empty string and \<open>undefined\<close> are
  the falsy ones.
\<close>

definition truthy_str :: "string option \<Rightarrow> bool" where
  "truthy_str c = (case c of None \<Rightarrow> False | Some s \<Rightarrow> s \<noteq> [])"

definition cell_or_empty :: "string option \<Rightarrow> string" where
  "cell_or_empty c = (case c of None \<Rightarrow> [] | Some s \<Rightarrow> s)"

definition cell_or_undefined :: "string option \<Rightarrow> string option" where
  "cell_or_undefined c = (if truthy_str c then c else None)"

text \<open>
  The built-in conversions \<open>parseFloat\<close> and \<open>Number\<close> are parameters of the import
  handlers below (\<open>string \<Rightarrow> jsnum\<close>). \<open>parseFloat(undefined)\<close> is \<open>NaN\<close> whatever the
  conversion does on strings. For closed examples \<open>parseFloat_js\<close> and \<open>Number_js\<close> give the
  built-ins on a fragment of their inputs: strings of decimal digits, the empty string
  (\<open>Number('')\<close> is 0, \<open>parseFloat('')\<close> is \<open>NaN\<close>) and strings with no numeric reading
  such as \<open>abc\<close>. Other spellings of numbers (signs, fractions, exponents, hexadecimal,
  \<open>Infinity\<close>, surrounding blanks, digits followed by other text, and integers too large
  to be a double exactly) are outside the fragment: there the two functions do not give
  what the built-ins give, and nothing below evaluates them there.
\<close>

definition parseFloat_cell :: "(string \<Rightarrow> jsnum) \<Rightarrow> string option \<Rightarrow> jsnum" where
  "parseFloat_cell pf c = (case c of None \<Rightarrow> NaN | Some s \<Rightarrow> pf s)"

definition is_digit :: "char \<Rightarrow> bool" where
  "is_digit c = (c \<in> set ''0123456789'')"

definition digit_value :: "char \<Rightarrow> nat" where
  "digit_value c = of_char c - 48"

fun digits_value :: "nat \<Rightarrow> string \<Rightarrow> nat" where
  "digits_value acc [] = acc"
| "digits_value acc (c # cs) = digits_value (10 * acc + digit_value c) cs"

definition parseFloat_js :: "string \<Rightarrow> jsnum" where
  "parseFloat_js s =
     (if s \<noteq> [] \<and> list_all is_digit s then Num (of_nat (digits_value 0 s)) else NaN)"

definition Number_js :: "string \<Rightarrow> jsnum" where
  "Number_js s =
     (if list_all is_digit s then Num (of_nat (digits_value 0 s)) else NaN)"

text \<open>
  A \<open>Date\<close> object is either invalid or stands for an instant, kept as its ISO string.
  \<open>toISOString\<close> throws a \<open>RangeError\<close> on an invalid date; \<open>d?.toISOString()\<close> is
  \<open>undefined\<close> for a missing date.
\<close>

datatype jsdate = InvalidDate | ValidDate string

text \<open>
  The result of a remote call (\<open>{ data, error }\<close>) and of an expression that may throw:
  \<open>Err\<close> carries the message of the error.
\<close>

datatype 'a reply = Ok 'a | Err string

definition toISOString :: "jsdate \<Rightarrow> string reply" where
  "toISOString d = (case d of InvalidDate \<Rightarrow> Err ''Invalid time value'' | ValidDate s \<Rightarrow> Ok s)"

definition opt_toISOString :: "jsdate option \<Rightarrow> string option reply" where
  "opt_toISOString d =
     (case d of
        None \<Rightarrow> Ok None
      | Some x \<Rightarrow> (case toISOString x of Err e \<Rightarrow> Err e | Ok s \<Rightarrow> Ok (Some s)))"

text \<open>\<open>error.message || fallback\<close>.\<close>

definition message_or :: "string \<Rightarrow> string \<Rightarrow> string" where
  "message_or msg fallback = (if msg = [] then fallback else msg)"

section \<open>What a handler does to the page\<close>

datatype variant = Default_variant | Destructive

datatype toast = Toast variant string string

text \<open>
  The effects of one run of a handler on the page: the toasts shown, the labels of the
  \<open>console.error\<close> calls, the target of \<open>navigate\<close>, whether the form was \<open>reset()\<close>, whether
  the selected file was cleared, and the project whose file list was asked to be fetched again (\<open>fetchFiles\<close>, not awaited).
\<close>

record effects =
  toasts :: "toast list"
  console_errors :: "string list"
  navigated :: "string option"
  form_reset :: bool
  selection_cleared :: bool
  refetched :: "string option"

definition no_effects :: effects where
  "no_effects = \<lparr>toasts = [], console_errors = [], navigated = None, form_reset = False,
                  selection_cleared = False, refetched = None\<rparr>"

section \<open>The remote store\<close>

text \<open>
  Rows are kept as the columns the client sends plus the id the server generates
  (\<open>uuid PRIMARY KEY DEFAULT gen_random_uuid()\<close> in the migrations). A column the client
  leaves out is \<open>None\<close>: the server's defaults are not in the source.
\<close>

record project_payload =
  pp_name :: string
  pp_start_date :: "string option"
  pp_end_date :: "string option"
  pp_vendor :: "string option"
  pp_description :: "string option"
  pp_user_id :: "string option"
  pp_created_by :: "string option"
  pp_status :: "string option"
  pp_completion_percentage :: "jsnum option"

record project_row =
  p_id :: string
  p_cols :: project_payload

record activity_payload =
  ap_id :: "string option"
  ap_project_id :: string
  ap_name :: string
  ap_quantity :: "jsnum option"
  ap_unit :: "string option"
  ap_rate :: "jsnum option"
  ap_start_date :: "string option"
  ap_end_date :: "string option"

record activity_row =
  a_id :: string
  a_cols :: activity_payload

record file_payload =
  fp_name :: string
  fp_url :: string
  fp_project_id :: string
  fp_user_id :: string

record file_row =
  f_id :: string
  f_cols :: file_payload

text \<open>The requests a handler sends, in the order it sends them.\<close>

datatype call =
    Auth_getUser
  | Insert_projects project_payload
  | Update_projects_eq_id project_payload string
  | Delete_projects_eq_id string
  | Insert_activities "activity_payload list"
  | Delete_activities_eq_project_id string
  | Insert_files file_payload
  | Delete_files_eq_id string
  | Storage_upload string string
  | Storage_remove "string list"

record backend =
  projects :: "project_row list"
  activities :: "activity_row list"
  files :: "file_row list"
  storage :: "string \<rightharpoonup> string"
  calls :: "call list"

text \<open>
  Every remote call is answered by the service, and the answer is an input of the model:
  \<open>Ok\<close> with what the server generated, or \<open>Err\<close> with a message. A call that is answered
  with \<open>Err\<close> leaves the store as it was; a call that is answered with \<open>Ok\<close> has the effect
  written here. Both are logged in \<open>calls\<close>.
\<close>

definition log_call :: "call \<Rightarrow> backend \<Rightarrow> backend" where
  "log_call c db = db\<lparr>calls := calls db @ [c]\<rparr>"

definition insert_project :: "string reply \<Rightarrow> project_payload \<Rightarrow> backend \<Rightarrow> project_row reply \<times> backend" where
  "insert_project r payload db =
     (case r of
        Err e \<Rightarrow> (Err e, log_call (Insert_projects payload) db)
      | Ok new_id \<Rightarrow>
          (Ok \<lparr>p_id = new_id, p_cols = payload\<rparr>,
           log_call (Insert_projects payload)
             (db\<lparr>projects := projects db @ [\<lparr>p_id = new_id, p_cols = payload\<rparr>]\<rparr>)))"

text \<open>An update writes the columns that were sent and keeps the others.\<close>

definition keep_or :: "'a option \<Rightarrow> 'a option \<Rightarrow> 'a option" where
  "keep_or old new = (case new of None \<Rightarrow> old | Some v \<Rightarrow> Some v)"

definition merge_cols :: "project_payload \<Rightarrow> project_payload \<Rightarrow> project_payload" where
  "merge_cols old new =
     \<lparr>pp_name = pp_name new,
      pp_start_date = keep_or (pp_start_date old) (pp_start_date new),
      pp_end_date = keep_or (pp_end_date old) (pp_end_date new),
      pp_vendor = keep_or (pp_vendor old) (pp_vendor new),
      pp_description = keep_or (pp_description old) (pp_description new),
      pp_user_id = keep_or (pp_user_id old) (pp_user_id new),
      pp_created_by = keep_or (pp_created_by old) (pp_created_by new),
      pp_status = keep_or (pp_status old) (pp_status new),
      pp_completion_percentage =
        keep_or (pp_completion_percentage old) (pp_completion_percentage new)\<rparr>"

definition update_row :: "project_payload \<Rightarrow> string \<Rightarrow> project_row \<Rightarrow> project_row" where
  "update_row payload i row =
     (if p_id row = i then row\<lparr>p_cols := merge_cols (p_cols row) payload\<rparr> else row)"

definition update_project :: "unit reply \<Rightarrow> project_payload \<Rightarrow> string \<Rightarrow> backend \<Rightarrow> unit reply \<times> backend" where
  "update_project r payload i db =
     (case r of
        Err e \<Rightarrow> (Err e, log_call (Update_projects_eq_id payload i) db)
      | Ok u \<Rightarrow>
          (Ok (),
           log_call (Update_projects_eq_id payload i)
             (db\<lparr>projects := map (update_row payload i) (projects db)\<rparr>)))"

text \<open>
  Deleting a project takes its activities and files with it
  (\<open>REFERENCES projects(id) ON DELETE CASCADE\<close>).
\<close>

definition delete_project :: "unit reply \<Rightarrow> string \<Rightarrow> backend \<Rightarrow> unit reply \<times> backend" where
  "delete_project r i db =
     (case r of
        Err e \<Rightarrow> (Err e, log_call (Delete_projects_eq_id i) db)
      | Ok u \<Rightarrow>
          (Ok (),
           log_call (Delete_projects_eq_id i)
             (db\<lparr>projects := filter (\<lambda>p. p_id p \<noteq> i) (projects db),
                 activities := filter (\<lambda>a. ap_project_id (a_cols a) \<noteq> i) (activities db),
                 files := filter (\<lambda>f. fp_project_id (f_cols f) \<noteq> i) (files db)\<rparr>)))"

text \<open>
  Inserting activities: the server answers with the ids it generates, one for each
  position; a row that was sent with an id keeps it.
\<close>

fun make_activity_rows :: "(nat \<Rightarrow> string) \<Rightarrow> nat \<Rightarrow> activity_payload list \<Rightarrow> activity_row list" where
  "make_activity_rows gen k [] = []"
| "make_activity_rows gen k (x # xs) =
     \<lparr>a_id = (case ap_id x of None \<Rightarrow> gen k | Some i \<Rightarrow> i), a_cols = x\<rparr>
       # make_activity_rows gen (Suc k) xs"

definition insert_activities :: "(nat \<Rightarrow> string) reply \<Rightarrow> activity_payload list \<Rightarrow> backend \<Rightarrow> unit reply \<times> backend" where
  "insert_activities r payload db =
     (case r of
        Err e \<Rightarrow> (Err e, log_call (Insert_activities payload) db)
      | Ok gen \<Rightarrow>
          (Ok (),
           log_call (Insert_activities payload)
             (db\<lparr>activities := activities db @ make_activity_rows gen 0 payload\<rparr>)))"

definition delete_activities_of :: "unit reply \<Rightarrow> string \<Rightarrow> backend \<Rightarrow> unit reply \<times> backend" where
  "delete_activities_of r i db =
     (case r of
        Err e \<Rightarrow> (Err e, log_call (Delete_activities_eq_project_id i) db)
      | Ok u \<Rightarrow>
          (Ok (),
           log_call (Delete_activities_eq_project_id i)
             (db\<lparr>activities := filter (\<lambda>a. ap_project_id (a_cols a) \<noteq> i) (activities db)\<rparr>)))"

definition insert_file :: "string reply \<Rightarrow> file_payload \<Rightarrow> backend \<Rightarrow> file_row reply \<times> backend" where
  "insert_file r payload db =
     (case r of
        Err e \<Rightarrow> (Err e, log_call (Insert_files payload) db)
      | Ok new_id \<Rightarrow>
          (Ok \<lparr>f_id = new_id, f_cols = payload\<rparr>,
           log_call (Insert_files payload)
             (db\<lparr>files := files db @ [\<lparr>f_id = new_id, f_cols = payload\<rparr>]\<rparr>)))"

definition delete_file :: "unit reply \<Rightarrow> string \<Rightarrow> backend \<Rightarrow> unit reply \<times> backend" where
  "delete_file r i db =
     (case r of
        Err e \<Rightarrow> (Err e, log_call (Delete_files_eq_id i) db)
      | Ok u \<Rightarrow>
          (Ok (),
           log_call (Delete_files_eq_id i)
             (db\<lparr>files := filter (\<lambda>f. f_id f \<noteq> i) (files db)\<rparr>)))"

text \<open>Blob storage of the bucket \<open>project-files\<close>: a map from paths to contents.\<close>

definition storage_upload :: "unit reply \<Rightarrow> string \<Rightarrow> string \<Rightarrow> backend \<Rightarrow> unit reply \<times> backend" where
  "storage_upload r path content db =
     (case r of
        Err e \<Rightarrow> (Err e, log_call (Storage_upload path content) db)
      | Ok u \<Rightarrow>
          (Ok (),
           log_call (Storage_upload path content) (db\<lparr>storage := (storage db)(path \<mapsto> content)\<rparr>)))"

fun remove_paths :: "string list \<Rightarrow> (string \<rightharpoonup> string) \<Rightarrow> (string \<rightharpoonup> string)" where
  "remove_paths [] m = m"
| "remove_paths (p # ps) m = remove_paths ps (m(p := None))"

definition storage_remove :: "unit reply \<Rightarrow> string list \<Rightarrow> backend \<Rightarrow> unit reply \<times> backend" where
  "storage_remove r paths db =
     (case r of
        Err e \<Rightarrow> (Err e, log_call (Storage_remove paths) db)
      | Ok u \<Rightarrow>
          (Ok (),
           log_call (Storage_remove paths) (db\<lparr>storage := remove_paths paths (storage db)\<rparr>)))"

section \<open>Creating a project\<close>

subsection \<open>src/pages/NewProject.tsx\<close>

record Activity =
  act_id :: "string option"
  act_name :: string
  act_quantity :: jsnum
  act_unit :: string
  act_rate :: jsnum
  act_start_date :: "string option"
  act_end_date :: "string option"
  act_project_id :: "string option"

record ProjectFormData =
  fd_name :: string
  fd_startDate :: string
  fd_endDate :: string
  fd_vendor :: string
  fd_description :: string
  fd_activities :: "Activity list"

text \<open>The answers of the service to the calls of a create-project submission.\<close>

record create_replies =
  on_insert_project :: "string reply"
  on_insert_activities :: "(nat \<Rightarrow> string) reply"
  on_delete_project :: "unit reply"

text \<open>
  \<open>{ ...activity, project_id: newProjectId, quantity: Number(activity.quantity) || 0,
  rate: Number(activity.rate) || 0 }\<close>; \<open>Number\<close> of a number is the number.
\<close>

definition activity_to_insert :: "string \<Rightarrow> Activity \<Rightarrow> activity_payload" where
  "activity_to_insert newProjectId activity =
     \<lparr>ap_id = act_id activity,
      ap_project_id = newProjectId,
      ap_name = act_name activity,
      ap_quantity = Some (or_zero (act_quantity activity)),
      ap_unit = Some (act_unit activity),
      ap_rate = Some (or_zero (act_rate activity)),
      ap_start_date = act_start_date activity,
      ap_end_date = act_end_date activity\<rparr>"

definition new_project_payload :: "auth_user \<Rightarrow> ProjectFormData \<Rightarrow> project_payload" where
  "new_project_payload u data =
     \<lparr>pp_name = fd_name data,
      pp_start_date = Some (fd_startDate data),
      pp_end_date = Some (fd_endDate data),
      pp_vendor = Some (fd_vendor data),
      pp_description = Some (fd_description data),
      pp_user_id = Some (uid u),
      pp_created_by = None,
      pp_status = Some ''ongoing'',
      pp_completion_percentage = None\<rparr>"

definition create_caught :: "string \<Rightarrow> effects" where
  "create_caught e =
     no_effects\<lparr>toasts := [Toast Destructive ''Error creating project''
                               (message_or e ''An unexpected error occurred.'')],
                 console_errors := [''Error creating project:'']\<rparr>"

definition create_done :: "string \<Rightarrow> effects" where
  "create_done newProjectId =
     no_effects\<lparr>toasts := [Toast Default_variant ''Success'' ''Project created successfully.''],
                 form_reset := True,
                 navigated := Some (''/projects/'' @ newProjectId)\<rparr>"

definition onSubmit_NewProject ::
  "create_replies \<Rightarrow> auth_user option \<Rightarrow> ProjectFormData \<Rightarrow> backend \<Rightarrow> effects \<times> backend" where
  "onSubmit_NewProject rs usr data db =
     (case usr of
        None \<Rightarrow>
          (no_effects\<lparr>toasts := [Toast Destructive ''Error'' ''User not authenticated.'']\<rparr>, db)
      | Some u \<Rightarrow>
          (case insert_project (on_insert_project rs) (new_project_payload u data) db of
             (Err projectError, db1) \<Rightarrow> (create_caught projectError, db1)
           | (Ok projectData, db1) \<Rightarrow>
               (let newProjectId = p_id projectData in
                if fd_activities data \<noteq> [] then
                  (case insert_activities (on_insert_activities rs)
                          (map (activity_to_insert newProjectId) (fd_activities data)) db1 of
                     (Err activitiesError, db2) \<Rightarrow> (create_caught activitiesError, db2)
                   | (Ok u2, db2) \<Rightarrow> (create_done newProjectId, db2))
                else (create_done newProjectId, db1))))"

subsection \<open>The second create-project page (unnamed part 003)\<close>

text \<open>
  The values the zod schema lets through: quantity and rate are a number or missing
  (\<open>null\<close> and \<open>undefined\<close> are both \<open>None\<close>), dates are \<open>Date\<close> objects or missing.
\<close>

record ActivityValues =
  av_name :: string
  av_quantity :: "jsnum option"
  av_unit :: "string option"
  av_rate :: "jsnum option"
  av_start_date :: "jsdate option"
  av_end_date :: "jsdate option"

record FormValues =
  fv_name :: string
  fv_start_date :: "jsdate option"
  fv_end_date :: "jsdate option"
  fv_vendor :: "string option"
  fv_description :: "string option"
  fv_activities :: "ActivityValues list"

definition activity_to_insert_003 :: "string \<Rightarrow> ActivityValues \<Rightarrow> activity_payload reply" where
  "activity_to_insert_003 projectId activity =
     (case opt_toISOString (av_start_date activity) of
        Err e \<Rightarrow> Err e
      | Ok sd \<Rightarrow>
          (case opt_toISOString (av_end_date activity) of
             Err e \<Rightarrow> Err e
           | Ok ed \<Rightarrow>
               Ok \<lparr>ap_id = None,
                   ap_project_id = projectId,
                   ap_name = av_name activity,
                   ap_quantity = av_quantity activity,
                   ap_unit = av_unit activity,
                   ap_rate = av_rate activity,
                   ap_start_date = sd,
                   ap_end_date = ed\<rparr>))"

text \<open>\<open>xs.map(f)\<close> where \<open>f\<close> may throw: the first throw ends the map.\<close>

fun map_throwing :: "('a \<Rightarrow> 'b reply) \<Rightarrow> 'a list \<Rightarrow> 'b list reply" where
  "map_throwing f [] = Ok []"
| "map_throwing f (x # xs) =
     (case f x of
        Err e \<Rightarrow> Err e
      | Ok y \<Rightarrow> (case map_throwing f xs of Err e \<Rightarrow> Err e | Ok ys \<Rightarrow> Ok (y # ys)))"

definition project_payload_003 :: "string \<Rightarrow> FormValues \<Rightarrow> project_payload reply" where
  "project_payload_003 userId values =
     (case opt_toISOString (fv_start_date values) of
        Err e \<Rightarrow> Err e
      | Ok sd \<Rightarrow>
          (case opt_toISOString (fv_end_date values) of
             Err e \<Rightarrow> Err e
           | Ok ed \<Rightarrow>
               Ok \<lparr>pp_name = fv_name values,
                   pp_start_date = sd,
                   pp_end_date = ed,
                   pp_vendor = fv_vendor values,
                   pp_description = fv_description values,
                   pp_user_id = None,
                   pp_created_by = Some userId,
                   pp_status = None,
                   pp_completion_percentage = None\<rparr>))"

definition create_caught_003 :: "string \<Rightarrow> effects" where
  "create_caught_003 e =
     no_effects\<lparr>console_errors := [''Error creating project:''],
                 toasts := [Toast Destructive ''Failed to Create Project''
                               (message_or e ''An unexpected error occurred.'')]\<rparr>"

definition create_done_003 :: effects where
  "create_done_003 =
     no_effects\<lparr>toasts := [Toast Default_variant ''Project Created''
                               ''Your new project and activities have been saved.''],
                 navigated := Some ''/dashboard''\<rparr>"

text \<open>
  \<open>getUser\<close> answers with the id of the signed-in user, if any. When the insertion of the
  activities fails, the project is deleted (the answer to that call is not looked at) and
  the error of the insertion is thrown.
\<close>

definition onSubmit_003 ::
  "string option \<Rightarrow> create_replies \<Rightarrow> FormValues \<Rightarrow> backend \<Rightarrow> effects \<times> backend" where
  "onSubmit_003 got_user rs values db0 =
     (let db = log_call Auth_getUser db0 in
      case got_user of
        None \<Rightarrow>
          (no_effects\<lparr>toasts := [Toast Destructive ''Authentication Error'' ''User not logged in.'']\<rparr>,
           db)
      | Some userId \<Rightarrow>
          (case project_payload_003 userId values of
             Err e \<Rightarrow> (create_caught_003 e, db)
           | Ok payload \<Rightarrow>
               (case insert_project (on_insert_project rs) payload db of
                  (Err projectError, db1) \<Rightarrow> (create_caught_003 projectError, db1)
                | (Ok projectData, db1) \<Rightarrow>
                    (let projectId = p_id projectData in
                     case map_throwing (activity_to_insert_003 projectId) (fv_activities values) of
                       Err e \<Rightarrow> (create_caught_003 e, db1)
                     | Ok activitiesToInsert \<Rightarrow>
                         if activitiesToInsert \<noteq> [] then
                           (case insert_activities (on_insert_activities rs) activitiesToInsert db1 of
                              (Err activitiesError, db2) \<Rightarrow>
                                (create_caught_003 activitiesError,
                                 snd (delete_project (on_delete_project rs) projectId db2))
                            | (Ok u2, db2) \<Rightarrow> (create_done_003, db2))
                         else (create_done_003, db1)))))"

section \<open>Saving an edited project (src/pages/EditProject.tsx)\<close>

record EditProjectFormData = ProjectFormData +
  fd_status :: string
  fd_completion_percentage :: jsnum

record edit_replies =
  on_update_project :: "unit reply"
  on_delete_activities :: "unit reply"
  on_reinsert_activities :: "(nat \<Rightarrow> string) reply"

definition edit_project_payload :: "EditProjectFormData \<Rightarrow> project_payload" where
  "edit_project_payload data =
     \<lparr>pp_name = fd_name data,
      pp_start_date = Some (fd_startDate data),
      pp_end_date = Some (fd_endDate data),
      pp_vendor = Some (fd_vendor data),
      pp_description = Some (fd_description data),
      pp_user_id = None,
      pp_created_by = None,
      pp_status = Some (fd_status data),
      pp_completion_percentage = Some (fd_completion_percentage data)\<rparr>"

text \<open>As \<open>activity_to_insert\<close>, with \<open>id: undefined\<close> last.\<close>

definition activity_to_reinsert :: "string \<Rightarrow> Activity \<Rightarrow> activity_payload" where
  "activity_to_reinsert i activity = (activity_to_insert i activity)\<lparr>ap_id := None\<rparr>"

definition edit_caught :: "string \<Rightarrow> effects" where
  "edit_caught e =
     no_effects\<lparr>toasts := [Toast Destructive ''Error updating project''
                               (message_or e ''An unexpected error occurred.'')],
                 console_errors := [''Error updating project:'']\<rparr>"

definition edit_done :: "string \<Rightarrow> effects" where
  "edit_done i =
     no_effects\<lparr>toasts := [Toast Default_variant ''Success'' ''Project updated successfully.''],
                 navigated := Some (''/projects/'' @ i)\<rparr>"

definition onSubmit_EditProject ::
  "edit_replies \<Rightarrow> auth_user option \<Rightarrow> string option \<Rightarrow> EditProjectFormData \<Rightarrow> backend
     \<Rightarrow> effects \<times> backend" where
  "onSubmit_EditProject rs usr id_param data db =
     (if usr = None \<or> \<not> truthy_str id_param then
        (no_effects\<lparr>toasts := [Toast Destructive ''Error''
                                   ''User not authenticated or project ID missing.'']\<rparr>, db)
      else
        (let i = cell_or_empty id_param in
         case update_project (on_update_project rs) (edit_project_payload data) i db of
           (Err projectError, db1) \<Rightarrow> (edit_caught projectError, db1)
         | (Ok u1, db1) \<Rightarrow>
             (case delete_activities_of (on_delete_activities rs) i db1 of
                (Err deleteActivitiesError, db2) \<Rightarrow> (edit_caught deleteActivitiesError, db2)
              | (Ok u2, db2) \<Rightarrow>
                  if fd_activities data \<noteq> [] then
                    (case insert_activities (on_reinsert_activities rs)
                            (map (activity_to_reinsert i) (fd_activities data)) db2 of
                       (Err activitiesError, db3) \<Rightarrow> (edit_caught activitiesError, db3)
                     | (Ok u3, db3) \<Rightarrow> (edit_done i, db3))
                  else (edit_done i, db2))))"

section \<open>Importing activities from a CSV file\<close>

text \<open>
  What \<open>Papa.parse(file, { header: true, skipEmptyLines: true, complete, error })\<close> hands to
  its callbacks: \<open>complete(results)\<close> with the parsed rows (objects keyed by the header)
  and the list of parse errors, or \<open>error(err)\<close> when the file could not be read.
\<close>

type_synonym csv_row = "string \<rightharpoonup> string"

record papa_results =
  res_data :: "csv_row list"
  res_errors :: "string list"

datatype papa_outcome = Complete papa_results | Failed string

text \<open>The decimal digits of a number, as a template literal prints it.\<close>

definition digit_char :: "nat \<Rightarrow> char" where
  "digit_char d = ''0123456789'' ! d"

function decimal :: "nat \<Rightarrow> string" where
  "decimal n =
     (if n < 10 then [digit_char n] else decimal (n div 10) @ [digit_char (n mod 10)])"
  by pat_completeness auto
termination
  by (relation "measure id") auto

declare decimal.simps [simp del]

subsection \<open>src/pages/NewProject.tsx\<close>

definition csv_row_to_Activity :: "(string \<Rightarrow> jsnum) \<Rightarrow> csv_row \<Rightarrow> Activity" where
  "csv_row_to_Activity pf row =
     \<lparr>act_id = None,
      act_name = cell_or_empty (row ''Activity Name''),
      act_quantity = or_zero (parseFloat_cell pf (row ''Quantity'')),
      act_unit = cell_or_empty (row ''Unit''),
      act_rate = or_zero (parseFloat_cell pf (row ''Rate'')),
      act_start_date = cell_or_undefined (row ''Start Date''),
      act_end_date = cell_or_undefined (row ''End Date''),
      act_project_id = None\<rparr>"

definition newActivities_of :: "(string \<Rightarrow> jsnum) \<Rightarrow> papa_results \<Rightarrow> Activity list" where
  "newActivities_of pf results =
     filter (\<lambda>activity. act_name activity \<noteq> []) (map (csv_row_to_Activity pf) (res_data results))"

text \<open>\<open>remove()\<close> without an index empties the field array; \<open>append\<close> adds at the end.\<close>

definition remove_all :: "'a list \<Rightarrow> 'a list" where
  "remove_all xs = []"

definition append_fields :: "'a list \<Rightarrow> 'a list \<Rightarrow> 'a list" where
  "append_fields xs new = xs @ new"

definition handleCsvUpload ::
  "(string \<Rightarrow> jsnum) \<Rightarrow> papa_outcome option \<Rightarrow> Activity list \<Rightarrow> effects \<times> Activity list" where
  "handleCsvUpload pf file field_array =
     (case file of
        None \<Rightarrow> (no_effects, field_array)
      | Some (Failed e) \<Rightarrow>
          (no_effects\<lparr>console_errors := [''CSV Parsing Error:''],
                       toasts := [Toast Destructive ''CSV Parsing Error''
                                    (message_or e ''An error occurred during CSV parsing.'')]\<rparr>,
           field_array)
      | Some (Complete results) \<Rightarrow>
          if length (res_errors results) > 0 then
            (no_effects\<lparr>console_errors := [''CSV Parsing Errors:''],
                         toasts := [Toast Destructive ''CSV Parsing Error''
                                      ''Could not parse CSV file. Check console for details.'']\<rparr>,
             field_array)
          else
            (let newActivities = newActivities_of pf results in
             (no_effects\<lparr>toasts := [Toast Default_variant ''CSV Imported''
                                        (decimal (length newActivities) @ '' activities loaded from CSV.'')]\<rparr>,
              append_fields (remove_all field_array) newActivities)))"

subsection \<open>The second create-project page (unnamed part 003)\<close>

text \<open>\<open>c ? Number(c) : 0\<close> and \<open>c ? new Date(c) : undefined\<close>.\<close>

definition number_cell :: "(string \<Rightarrow> jsnum) \<Rightarrow> string option \<Rightarrow> jsnum" where
  "number_cell num c = (if truthy_str c then num (cell_or_empty c) else Num 0)"

definition date_cell :: "(string \<Rightarrow> jsdate) \<Rightarrow> string option \<Rightarrow> jsdate option" where
  "date_cell new_Date c = (if truthy_str c then Some (new_Date (cell_or_empty c)) else None)"

definition csv_row_to_values :: "(string \<Rightarrow> jsnum) \<Rightarrow> (string \<Rightarrow> jsdate) \<Rightarrow> csv_row \<Rightarrow> ActivityValues" where
  "csv_row_to_values num new_Date row =
     \<lparr>av_name = cell_or_empty (row ''Activity Name''),
      av_quantity = Some (number_cell num (row ''Qty'')),
      av_unit = Some (cell_or_empty (row ''Unit'')),
      av_rate = Some (number_cell num (row ''Rate'')),
      av_start_date = date_cell new_Date (row ''Start Date''),
      av_end_date = date_cell new_Date (row ''End Date'')\<rparr>"

definition parsedActivities_of ::
  "(string \<Rightarrow> jsnum) \<Rightarrow> (string \<Rightarrow> jsdate) \<Rightarrow> papa_results \<Rightarrow> ActivityValues list" where
  "parsedActivities_of num new_Date results =
     filter (\<lambda>activity. av_name activity \<noteq> []) (map (csv_row_to_values num new_Date) (res_data results))"

text \<open>\<open>form.setValue('activities', parsedActivities)\<close> replaces the value of the field.\<close>

definition handleCSVUpload ::
  "(string \<Rightarrow> jsnum) \<Rightarrow> (string \<Rightarrow> jsdate) \<Rightarrow> papa_outcome option \<Rightarrow> ActivityValues list
     \<Rightarrow> effects \<times> ActivityValues list" where
  "handleCSVUpload num new_Date file activities_value =
     (case file of
        None \<Rightarrow> (no_effects, activities_value)
      | Some (Failed e) \<Rightarrow>
          (no_effects\<lparr>console_errors := [''CSV parsing error:''],
                       toasts := [Toast Destructive ''CSV Import Error'' e]\<rparr>,
           activities_value)
      | Some (Complete results) \<Rightarrow>
          (let parsedActivities = parsedActivities_of num new_Date results in
           (no_effects\<lparr>toasts := [Toast Default_variant ''CSV Imported''
                                      (decimal (length parsedActivities) @ '' activities loaded from CSV.'')]\<rparr>,
            parsedActivities)))"

section \<open>Files of a project (unnamed part 005)\<close>

text \<open>The file picked in the input: its name and its content.\<close>

record js_file =
  file_name :: string
  file_content :: string

record upload_replies =
  on_upload :: "unit reply"
  on_insert_file :: "string reply"
  on_remove_uploaded :: "unit reply"

text \<open>\<open>`${projectId}/${Date.now()}_${selectedFile.name}`\<close>\<close>

definition upload_path :: "string \<Rightarrow> nat \<Rightarrow> string \<Rightarrow> string" where
  "upload_path projectId now name = projectId @ ''/'' @ decimal now @ ''_'' @ name"

definition upload_caught :: "string \<Rightarrow> effects" where
  "upload_caught e =
     no_effects\<lparr>toasts := [Toast Destructive ''Error uploading file''
                               (message_or e ''An unexpected error occurred during upload.'')],
                 console_errors := [''File upload error:'']\<rparr>"

text \<open>
  \<open>getPublicUrl\<close> builds the URL from the path without a remote call; the function that
  does it is a parameter. \<open>now\<close> is the value of \<open>Date.now()\<close>.
\<close>

definition handleFileUpload ::
  "(string \<Rightarrow> string) \<Rightarrow> nat \<Rightarrow> upload_replies \<Rightarrow> auth_user option \<Rightarrow> string option
     \<Rightarrow> js_file option \<Rightarrow> backend \<Rightarrow> effects \<times> backend" where
  "handleFileUpload getPublicUrl now rs usr projectId_param selectedFile db =
     (case (usr, selectedFile) of
        (Some u, Some file) \<Rightarrow>
          if \<not> truthy_str projectId_param then
            (no_effects\<lparr>toasts := [Toast Destructive ''Error''
                                       ''No file selected or project ID missing.'']\<rparr>, db)
          else
            (let projectId = cell_or_empty projectId_param;
                 filePath = upload_path projectId now (file_name file) in
             case storage_upload (on_upload rs) filePath (file_content file) db of
               (Err uploadError, db1) \<Rightarrow> (upload_caught uploadError, db1)
             | (Ok u1, db1) \<Rightarrow>
                 (let publicUrl = getPublicUrl filePath in
                  case insert_file (on_insert_file rs)
                         \<lparr>fp_name = file_name file, fp_url = publicUrl,
                          fp_project_id = projectId, fp_user_id = uid u\<rparr> db1 of
                    (Err dbError, db2) \<Rightarrow>
                      ((upload_caught dbError)
                         \<lparr>console_errors :=
                            [''Failed to save file record, attempting to delete storage file:'',
                             ''File upload error:'']\<rparr>,
                       snd (storage_remove (on_remove_uploaded rs) [filePath] db2))
                  | (Ok fileRecord, db2) \<Rightarrow>
                      (no_effects\<lparr>toasts := [Toast Default_variant ''Success''
                                                 ''File uploaded successfully.''],
                                   selection_cleared := True,
                                   refetched := Some projectId\<rparr>,
                       db2)))
      | _ \<Rightarrow>
          (no_effects\<lparr>toasts := [Toast Destructive ''Error''
                                     ''No file selected or project ID missing.'']\<rparr>, db))"

record delete_replies =
  on_delete_file :: "unit reply"
  on_remove_blob :: "unit reply"

text \<open>\<open>confirmed\<close> is the answer to \<open>window.confirm\<close>.\<close>

definition handleDeleteFile ::
  "delete_replies \<Rightarrow> bool \<Rightarrow> auth_user option \<Rightarrow> string option \<Rightarrow> string \<Rightarrow> string \<Rightarrow> backend
     \<Rightarrow> effects \<times> backend" where
  "handleDeleteFile rs confirmed usr projectId_param fileId filePathInStorage db =
     (if usr = None \<or> \<not> truthy_str projectId_param then
        (no_effects\<lparr>toasts := [Toast Destructive ''Error''
                                   ''User not authenticated or project ID missing.'']\<rparr>, db)
      else if confirmed then
        (case delete_file (on_delete_file rs) fileId db of
           (Err dbError, db1) \<Rightarrow>
             (no_effects\<lparr>toasts := [Toast Destructive ''Error deleting file''
                                        (message_or dbError
                                           ''An unexpected error occurred during deletion.'')],
                          console_errors := [''File deletion error:'']\<rparr>,
              db1)
         | (Ok u1, db1) \<Rightarrow>
             (case storage_remove (on_remove_blob rs) [filePathInStorage] db1 of
                (storageResult, db2) \<Rightarrow>
                  (no_effects\<lparr>console_errors :=
                                 (case storageResult of
                                    Err storageError \<Rightarrow> [''Error deleting file from storage:'']
                                  | Ok u2 \<Rightarrow> []),
                               toasts := [Toast Default_variant ''Success''
                                            ''File deleted successfully.''],
                               refetched := Some (cell_or_empty projectId_param)\<rparr>,
                   db2)))
      else (no_effects, db))"

text \<open>
  The Delete button of a listed file:
  \<open>handleDeleteFile(file.id, `project-files/${projectId}/${file.name}`)\<close>.
\<close>

definition delete_path :: "string \<Rightarrow> string \<Rightarrow> string" where
  "delete_path projectId name = ''project-files/'' @ projectId @ ''/'' @ name"

definition delete_button ::
  "delete_replies \<Rightarrow> bool \<Rightarrow> auth_user option \<Rightarrow> string option \<Rightarrow> file_row \<Rightarrow> backend
     \<Rightarrow> effects \<times> backend" where
  "delete_button rs confirmed usr projectId_param file db =
     handleDeleteFile rs confirmed usr projectId_param (f_id file)
       (delete_path (cell_or_empty projectId_param) (fp_name (f_cols file))) db"

section \<open>Notions used in the statements\<close>

text \<open>
  A submission completed successfully when it reached the \<open>navigate\<close> call: in each of the
  handlers above that call is the last statement of the \<open>try\<close> block.
\<close>

definition completed :: "effects \<Rightarrow> bool" where
  "completed eff = (navigated eff \<noteq> None)"

text \<open>Whether a project row with the given id is in the store.\<close>

definition project_exists :: "string \<Rightarrow> backend \<Rightarrow> bool" where
  "project_exists i db = list_ex (\<lambda>p. p_id p = i) (projects db)"

text \<open>The activity rows of one project.\<close>

definition activities_of :: "string \<Rightarrow> backend \<Rightarrow> activity_row list" where
  "activities_of i db = filter (\<lambda>a. ap_project_id (a_cols a) = i) (activities db)"

section \<open>Inputs of the examples\<close>

definition example_user :: auth_user where
  "example_user = \<lparr>uid = ''u1'', email = ''a@b.c'', approved = False\<rparr>"

definition empty_backend :: backend where
  "empty_backend = \<lparr>projects = [], activities = [], files = [], storage = Map.empty, calls = []\<rparr>"

definition example_Activity :: Activity where
  "example_Activity =
     \<lparr>act_id = None, act_name = ''Dig'', act_quantity = Num 2, act_unit = ''m'', act_rate = NaN,
      act_start_date = None, act_end_date = None, act_project_id = None\<rparr>"

definition example_form :: ProjectFormData where
  "example_form =
     \<lparr>fd_name = ''Bridge'', fd_startDate = ''2025-01-01'', fd_endDate = ''2025-02-01'',
      fd_vendor = ''Acme'', fd_description = [], fd_activities = [example_Activity]\<rparr>"

definition example_values :: FormValues where
  "example_values =
     \<lparr>fv_name = ''Bridge'', fv_start_date = None, fv_end_date = Some (ValidDate ''2025-02-01T00:00:00.000Z''),
      fv_vendor = Some ''Acme'', fv_description = None,
      fv_activities =
        [\<lparr>av_name = ''Dig'', av_quantity = Some (Num 2), av_unit = Some ''m'', av_rate = None,
          av_start_date = None, av_end_date = None\<rparr>]\<rparr>"

text \<open>The service generates the ids \<open>a\<close>, \<open>aa\<close>, \<open>aaa\<close>, ... for the rows of one request.\<close>

definition example_ids :: "nat \<Rightarrow> string" where
  "example_ids k = replicate (Suc k) (CHR ''a'')"

definition replies_all_ok :: create_replies where
  "replies_all_ok =
     \<lparr>on_insert_project = Ok ''p1'', on_insert_activities = Ok example_ids,
      on_delete_project = Ok ()\<rparr>"

definition replies_activities_fail :: create_replies where
  "replies_activities_fail =
     \<lparr>on_insert_project = Ok ''p1'', on_insert_activities = Err ''insert failed'',
      on_delete_project = Ok ()\<rparr>"

text \<open>
  A parsed file whose header is \<open>Activity Name,Qty,Unit,Rate,Start Date,End Date\<close> and
  whose only row is \<open>Dig,abc,m,5\<close>: the row has too few fields, which the parser reports
  in its error list next to the row it made of the fields it found.
\<close>

definition example_row :: csv_row where
  "example_row = [''Activity Name'' \<mapsto> ''Dig'', ''Qty'' \<mapsto> ''abc'', ''Unit'' \<mapsto> ''m'', ''Rate'' \<mapsto> ''5'']"

definition example_results :: papa_results where
  "example_results = \<lparr>res_data = [example_row], res_errors = [''TooFewFields'']\<rparr>"

definition example_old_values :: ActivityValues where
  "example_old_values =
     \<lparr>av_name = ''Survey'', av_quantity = Some (Num 1), av_unit = Some ''day'',
      av_rate = Some (Num 100), av_start_date = None, av_end_date = None\<rparr>"

definition example_file :: js_file where
  "example_file = \<lparr>file_name = ''plan.pdf'', file_content = ''%PDF-1.7''\<rparr>"

definition example_getPublicUrl :: "string \<Rightarrow> string" where
  "example_getPublicUrl path = ''https://example.test/storage/v1/object/public/project-files/'' @ path"

definition replies_file_insert_fails :: upload_replies where
  "replies_file_insert_fails =
     \<lparr>on_upload = Ok (), on_insert_file = Err ''denied'', on_remove_uploaded = Ok ()\<rparr>"

definition replies_upload_ok :: upload_replies where
  "replies_upload_ok =
     \<lparr>on_upload = Ok (), on_insert_file = Ok ''f1'', on_remove_uploaded = Ok ()\<rparr>"

definition replies_blob_remove_fails :: delete_replies where
  "replies_blob_remove_fails = \<lparr>on_delete_file = Ok (), on_remove_blob = Err ''not found''\<rparr>"

definition replies_delete_ok :: delete_replies where
  "replies_delete_ok = \<lparr>on_delete_file = Ok (), on_remove_blob = Ok ()\<rparr>"

text \<open>A store with the project \<open>p1\<close> and one activity of it.\<close>

definition example_backend :: backend where
  "example_backend =
     \<lparr>projects = [\<lparr>p_id = ''p1'', p_cols = new_project_payload example_user example_form\<rparr>],
      activities = [\<lparr>a_id = ''old'', a_cols = activity_to_insert ''p1'' example_Activity\<rparr>],
      files = [], storage = Map.empty, calls = []\<rparr>"

definition example_edit :: EditProjectFormData where
  "example_edit =
     \<lparr>fd_name = ''Bridge 2'', fd_startDate = ''2025-01-01'', fd_endDate = ''2025-03-01'',
      fd_vendor = ''Acme'', fd_description = [],
      fd_activities = [example_Activity\<lparr>act_id := Some ''old''\<rparr>],
      fd_status = ''delayed'', fd_completion_percentage = Num 10\<rparr>"

definition replies_reinsert_fails :: edit_replies where
  "replies_reinsert_fails =
     \<lparr>on_update_project = Ok (), on_delete_activities = Ok (),
      on_reinsert_activities = Err ''insert failed''\<rparr>"

definition replies_edit_ok :: edit_replies where
  "replies_edit_ok =
     \<lparr>on_update_project = Ok (), on_delete_activities = Ok (),
      on_reinsert_activities = Ok example_ids\<rparr>"

section \<open>Properties of the routing gate\<close>

lemma App_protected:
  assumes "protected_request segs"
  shows "App a segs = Some (AuthenticatedLayout a (pathname_of segs) None)"
  using assms
  by (simp add: App_def protected_request_def ProtectedRoute_def split: option.splits)

lemma match_login: "match_route routes [''login''] = Some \<lparr>pattern = [''login''], element = PageEl Login, guarded = False\<rparr>"
  by (simp add: routes_def)

lemma match_root: "match_route routes [] = Some \<lparr>pattern = [], element = NavigateEl ''/dashboard'' True, guarded = False\<rparr>"
  by (simp add: routes_def)

lemma App_login: "App a [''login''] = Some (Show (Some Login))"
  by (simp add: App_def match_login render_element_def)

lemma App_root: "App a [] = Some (Navigate ''/dashboard'' None True)"
  by (simp add: App_def match_root render_element_def)

text \<open>
  C3 (as stated, second half): in the authenticated state a request for the login view
  would be redirected to the dashboard view. The route \<open>/login\<close> is outside the gate and
  renders the login page for an authenticated session.
\<close>

theorem C3_login_not_redirected_counterexample:
  "gate_state_of \<lparr>user = Some \<lparr>uid = ''u1'', email = ''a@b.c'', approved = True\<rparr>, loading = False\<rparr>
     = St_authenticated
   \<and> \<not> redirects_to
        (App \<lparr>user = Some \<lparr>uid = ''u1'', email = ''a@b.c'', approved = True\<rparr>, loading = False\<rparr>
           [''login''])
        ''/dashboard''"
  by (simp add: gate_state_of_def App_login)

text \<open>
  C3 (amended): in the unauthenticated state every request for a protected view is
  answered with a redirect to the login view (carrying the requested path); a request
  for the login view is answered with the login page in every state of the gate, the
  authenticated one included; the redirect to the dashboard view is what a request for
  the root path gets, in every state.
\<close>

theorem C3_gate_redirects:
  "(gate_state_of a = St_unauthenticated \<and> protected_request segs \<longrightarrow>
      App a segs = Some (Navigate ''/login'' (Some (pathname_of segs)) False)
      \<and> redirects_to (App a segs) ''/login'')
   \<and> App a [''login''] = Some (Show (Some Login))
   \<and> redirects_to (App a []) ''/dashboard''"
proof (intro conjI impI)
  assume h: "gate_state_of a = St_unauthenticated \<and> protected_request segs"
  then have l: "\<not> loading a" and u: "user a = None"
    by (auto simp: gate_state_of_def split: if_splits option.splits)
  from h have "App a segs = Some (AuthenticatedLayout a (pathname_of segs) None)"
    by (simp add: App_protected)
  with l u show "App a segs = Some (Navigate ''/login'' (Some (pathname_of segs)) False)"
    by (simp add: AuthenticatedLayout_def)
  then show "redirects_to (App a segs) ''/login''" by simp
next
  show "App a [''login''] = Some (Show (Some Login))" by (rule App_login)
next
  show "redirects_to (App a []) ''/dashboard''" by (simp add: App_root)
qed

theorem C3_gate_redirects_witness:
  "gate_state_of \<lparr>user = None, loading = False\<rparr> = St_unauthenticated
   \<and> protected_request [''projects'', ''42'', ''edit'']
   \<and> App \<lparr>user = None, loading = False\<rparr> [''projects'', ''42'', ''edit'']
       = Some (Navigate ''/login'' (Some ''/projects/42/edit'') False)"
proof -
  have g: "gate_state_of \<lparr>user = None, loading = False\<rparr> = St_unauthenticated"
    by (simp add: gate_state_of_def)
  have p: "protected_request [''projects'', ''42'', ''edit'']"
    by (simp add: protected_request_def routes_def)
  from C3_gate_redirects [of "\<lparr>user = None, loading = False\<rparr>" "[''projects'', ''42'', ''edit'']"] g p
  show ?thesis by simp
qed

text \<open>
  C4: the gate never reads the \<open>approved\<close> flag. Two auth contexts that differ only in
  the flag of the user get the same answer, from the gate itself and from \<open>App\<close> on every
  request; an authenticated user whose flag is false is admitted (the gate returns its
  children) on every protected request.
\<close>

theorem C4_gate_ignores_approved:
  "AuthenticatedLayout \<lparr>user = Some (u\<lparr>approved := b1\<rparr>), loading = l\<rparr> pathname children
     = AuthenticatedLayout \<lparr>user = Some (u\<lparr>approved := b2\<rparr>), loading = l\<rparr> pathname children
   \<and> App \<lparr>user = Some (u\<lparr>approved := b1\<rparr>), loading = l\<rparr> segs
     = App \<lparr>user = Some (u\<lparr>approved := b2\<rparr>), loading = l\<rparr> segs
   \<and> AuthenticatedLayout \<lparr>user = Some (u\<lparr>approved := False\<rparr>), loading = False\<rparr> pathname children
     = Show children
   \<and> (protected_request segs \<longrightarrow>
        App \<lparr>user = Some (u\<lparr>approved := False\<rparr>), loading = False\<rparr> segs = Some (Show None))"
  by (auto simp: AuthenticatedLayout_def ProtectedRoute_def App_def protected_request_def
           split: option.splits)

theorem C4_gate_ignores_approved_witness:
  "protected_request [''dashboard'']
   \<and> App \<lparr>user = Some \<lparr>uid = ''u1'', email = ''a@b.c'', approved = False\<rparr>, loading = False\<rparr>
        [''dashboard'']
     = Some (Show None)"
proof -
  have p: "protected_request [''dashboard'']"
    by (simp add: protected_request_def routes_def)
  from C4_gate_ignores_approved
         [where u = "\<lparr>uid = ''u1'', email = ''a@b.c'', approved = True\<rparr>"
            and segs = "[''dashboard'']" and children = "None :: page option"] p
  show ?thesis by simp
qed

section \<open>Properties of the create-project sequences\<close>

lemma length_make_activity_rows: "length (make_activity_rows gen k xs) = length xs"
  by (induction xs arbitrary: k) simp_all

lemma project_of_make_activity_rows:
  "list_all (\<lambda>a. ap_project_id (a_cols a) = i) (make_activity_rows gen k xs)
     = list_all (\<lambda>x. ap_project_id x = i) xs"
  by (induction xs arbitrary: k) simp_all

lemma map_throwing_length: "map_throwing f xs = Ok ys \<Longrightarrow> length ys = length xs"
  by (induction xs arbitrary: ys) (auto split: reply.splits)

lemma map_throwing_Nil: "(map_throwing f xs = Ok []) = (xs = [])"
  by (cases xs) (auto split: reply.splits)

lemma map_throwing_all:
  "map_throwing f xs = Ok ys \<Longrightarrow> (\<And>x y. f x = Ok y \<Longrightarrow> P y) \<Longrightarrow> list_all P ys"
  by (induction xs arbitrary: ys) (auto split: reply.splits)

lemma activity_to_insert_003_project:
  "activity_to_insert_003 i a = Ok y \<Longrightarrow> ap_project_id y = i"
  by (auto simp: activity_to_insert_003_def split: reply.splits)

lemma completed_simps:
  "\<not> completed (create_caught e)" "\<not> completed (create_caught_003 e)"
  "\<not> completed (no_effects\<lparr>toasts := ts\<rparr>)"
  "completed (create_done i)" "completed create_done_003"
  by (simp_all add: completed_def create_caught_def create_caught_003_def no_effects_def
        create_done_def create_done_003_def)

lemma rows_of_activity_to_insert:
  "list_all (\<lambda>a. ap_project_id (a_cols a) = pid)
     (make_activity_rows gen k (map (activity_to_insert pid) xs))"
  by (simp add: project_of_make_activity_rows list.pred_map comp_def activity_to_insert_def
        list.pred_True)

lemma rows_of_activity_to_insert_003:
  assumes "map_throwing (activity_to_insert_003 pid) xs = Ok ys"
  shows "list_all (\<lambda>a. ap_project_id (a_cols a) = pid) (make_activity_rows gen k ys)"
  using map_throwing_all [OF assms, of "\<lambda>y. ap_project_id y = pid"]
  by (simp add: project_of_make_activity_rows activity_to_insert_003_project)

lemma onSubmit_NewProject_success:
  assumes "completed (fst (onSubmit_NewProject rs usr data db))"
  shows "\<exists>u pid rows. usr = Some u \<and> on_insert_project rs = Ok pid
           \<and> projects (snd (onSubmit_NewProject rs usr data db))
                = projects db @ [\<lparr>p_id = pid, p_cols = new_project_payload u data\<rparr>]
           \<and> activities (snd (onSubmit_NewProject rs usr data db)) = activities db @ rows
           \<and> length rows = length (fd_activities data)
           \<and> list_all (\<lambda>a. ap_project_id (a_cols a) = pid) rows"
  using assms
  by (auto simp: onSubmit_NewProject_def insert_project_def insert_activities_def log_call_def
        Let_def length_make_activity_rows rows_of_activity_to_insert completed_simps
      split: option.splits reply.splits prod.splits if_splits)

lemma onSubmit_003_success:
  assumes "completed (fst (onSubmit_003 got_user rs values db))"
  shows "\<exists>userId pid payload rows. got_user = Some userId \<and> on_insert_project rs = Ok pid
           \<and> project_payload_003 userId values = Ok payload
           \<and> projects (snd (onSubmit_003 got_user rs values db))
                = projects db @ [\<lparr>p_id = pid, p_cols = payload\<rparr>]
           \<and> activities (snd (onSubmit_003 got_user rs values db)) = activities db @ rows
           \<and> length rows = length (fv_activities values)
           \<and> list_all (\<lambda>a. ap_project_id (a_cols a) = pid) rows"
  using assms
  by (auto simp: onSubmit_003_def insert_project_def insert_activities_def log_call_def
        Let_def length_make_activity_rows rows_of_activity_to_insert_003 map_throwing_length
        map_throwing_Nil completed_simps
      split: option.splits reply.splits prod.splits if_splits)

text \<open>
  C2: when a create-project submission with N activity rows completes successfully,
  the store has gained exactly one project row, with the id the server generated, and
  exactly N activity rows, each carrying that id as its project id. This holds for the
  handler of NewProject.tsx and for the one of the second create-project page.
\<close>

theorem C2_create_inserts_project_and_activities:
  "(completed (fst (onSubmit_NewProject rs usr data db)) \<longrightarrow>
      (\<exists>row rows.
          projects (snd (onSubmit_NewProject rs usr data db)) = projects db @ [row]
        \<and> on_insert_project rs = Ok (p_id row)
        \<and> activities (snd (onSubmit_NewProject rs usr data db)) = activities db @ rows
        \<and> length rows = length (fd_activities data)
        \<and> list_all (\<lambda>a. ap_project_id (a_cols a) = p_id row) rows))
   \<and> (completed (fst (onSubmit_003 got_user rs values db)) \<longrightarrow>
      (\<exists>row rows.
          projects (snd (onSubmit_003 got_user rs values db)) = projects db @ [row]
        \<and> on_insert_project rs = Ok (p_id row)
        \<and> activities (snd (onSubmit_003 got_user rs values db)) = activities db @ rows
        \<and> length rows = length (fv_activities values)
        \<and> list_all (\<lambda>a. ap_project_id (a_cols a) = p_id row) rows))"
proof (intro conjI impI)
  assume "completed (fst (onSubmit_NewProject rs usr data db))"
  from onSubmit_NewProject_success [OF this]
  obtain u pid rows where
    "on_insert_project rs = Ok pid"
    "projects (snd (onSubmit_NewProject rs usr data db))
       = projects db @ [\<lparr>p_id = pid, p_cols = new_project_payload u data\<rparr>]"
    "activities (snd (onSubmit_NewProject rs usr data db)) = activities db @ rows"
    "length rows = length (fd_activities data)"
    "list_all (\<lambda>a. ap_project_id (a_cols a) = pid) rows"
    by blast
  then show "\<exists>row rows.
          projects (snd (onSubmit_NewProject rs usr data db)) = projects db @ [row]
        \<and> on_insert_project rs = Ok (p_id row)
        \<and> activities (snd (onSubmit_NewProject rs usr data db)) = activities db @ rows
        \<and> length rows = length (fd_activities data)
        \<and> list_all (\<lambda>a. ap_project_id (a_cols a) = p_id row) rows"
    by (intro exI [of _ "\<lparr>p_id = pid, p_cols = new_project_payload u data\<rparr>"] exI [of _ rows])
       simp
next
  assume "completed (fst (onSubmit_003 got_user rs values db))"
  from onSubmit_003_success [OF this]
  obtain userId pid payload rows where
    "on_insert_project rs = Ok pid"
    "projects (snd (onSubmit_003 got_user rs values db))
       = projects db @ [\<lparr>p_id = pid, p_cols = payload\<rparr>]"
    "activities (snd (onSubmit_003 got_user rs values db)) = activities db @ rows"
    "length rows = length (fv_activities values)"
    "list_all (\<lambda>a. ap_project_id (a_cols a) = pid) rows"
    by blast
  then show "\<exists>row rows.
          projects (snd (onSubmit_003 got_user rs values db)) = projects db @ [row]
        \<and> on_insert_project rs = Ok (p_id row)
        \<and> activities (snd (onSubmit_003 got_user rs values db)) = activities db @ rows
        \<and> length rows = length (fv_activities values)
        \<and> list_all (\<lambda>a. ap_project_id (a_cols a) = p_id row) rows"
    by (intro exI [of _ "\<lparr>p_id = pid, p_cols = payload\<rparr>"] exI [of _ rows]) simp
qed

lemma example_NewProject_ok:
  "onSubmit_NewProject replies_all_ok (Some example_user) example_form empty_backend
     = (create_done ''p1'',
        \<lparr>projects = [\<lparr>p_id = ''p1'', p_cols = new_project_payload example_user example_form\<rparr>],
         activities = [\<lparr>a_id = ''a'', a_cols = activity_to_insert ''p1'' example_Activity\<rparr>],
         files = [], storage = Map.empty,
         calls = [Insert_projects (new_project_payload example_user example_form),
                  Insert_activities [activity_to_insert ''p1'' example_Activity]]\<rparr>)"
  by (simp add: onSubmit_NewProject_def replies_all_ok_def example_form_def empty_backend_def
        insert_project_def insert_activities_def log_call_def example_ids_def Let_def
        activity_to_insert_def example_Activity_def)

lemma example_003_ok:
  "fst (onSubmit_003 (Some ''u1'') replies_all_ok example_values empty_backend) = create_done_003"
  by (simp add: onSubmit_003_def replies_all_ok_def example_values_def empty_backend_def
        insert_project_def insert_activities_def log_call_def example_ids_def
        project_payload_003_def opt_toISOString_def toISOString_def activity_to_insert_003_def
        Let_def)

theorem C2_create_inserts_project_and_activities_witness:
  "completed (fst (onSubmit_NewProject replies_all_ok (Some example_user) example_form empty_backend))
   \<and> completed (fst (onSubmit_003 (Some ''u1'') replies_all_ok example_values empty_backend))
   \<and> length (projects (snd (onSubmit_NewProject replies_all_ok (Some example_user) example_form
        empty_backend))) = 1
   \<and> length (activities (snd (onSubmit_NewProject replies_all_ok (Some example_user) example_form
        empty_backend))) = 1
   \<and> length (projects (snd (onSubmit_003 (Some ''u1'') replies_all_ok example_values
        empty_backend))) = 1
   \<and> length (activities (snd (onSubmit_003 (Some ''u1'') replies_all_ok example_values
        empty_backend))) = 1"
proof -
  have a: "completed (fst (onSubmit_NewProject replies_all_ok (Some example_user) example_form empty_backend))"
    by (simp add: example_NewProject_ok completed_simps)
  have b: "completed (fst (onSubmit_003 (Some ''u1'') replies_all_ok example_values empty_backend))"
    by (simp add: example_003_ok completed_simps)
  have e: "projects empty_backend = []" "activities empty_backend = []"
    "length (fd_activities example_form) = 1" "length (fv_activities example_values) = 1"
    by (simp_all add: empty_backend_def example_form_def example_values_def)
  from C2_create_inserts_project_and_activities
         [of replies_all_ok "Some example_user" example_form empty_backend "Some ''u1''" example_values]
       a b e
  show ?thesis by auto
qed

lemma onSubmit_003_compensates:
  assumes "got_user = Some userId"
    and "project_payload_003 userId values = Ok payload"
    and "on_insert_project rs = Ok pid"
    and "map_throwing (activity_to_insert_003 pid) (fv_activities values) = Ok acts"
    and "acts \<noteq> []"
    and "on_insert_activities rs = Err e"
  shows "fst (onSubmit_003 got_user rs values db) = create_caught_003 e"
    and "calls (snd (onSubmit_003 got_user rs values db))
           = calls db @ [Auth_getUser, Insert_projects payload, Insert_activities acts,
                         Delete_projects_eq_id pid]"
    and "on_delete_project rs = Ok () \<Longrightarrow>
           \<not> project_exists pid (snd (onSubmit_003 got_user rs values db))"
  using assms
  by (auto simp: onSubmit_003_def insert_project_def insert_activities_def delete_project_def
        log_call_def Let_def project_exists_def list_ex_iff
      split: reply.splits)

text \<open>
  C1: when the insertion of the activities fails after the project row was inserted,
  the project row is deleted again. The handler of NewProject.tsx does not do it: on a
  submission with one activity whose insertion the service refuses, it sends the two
  insertions and nothing else, and the project row stays in the store.
\<close>

theorem C1_NewProject_keeps_project_row:
  "fst (onSubmit_NewProject replies_activities_fail (Some example_user) example_form empty_backend)
     = create_caught ''insert failed''
   \<and> calls (snd (onSubmit_NewProject replies_activities_fail (Some example_user) example_form
        empty_backend))
     = [Insert_projects (new_project_payload example_user example_form),
        Insert_activities [activity_to_insert ''p1'' example_Activity]]
   \<and> project_exists ''p1''
        (snd (onSubmit_NewProject replies_activities_fail (Some example_user) example_form
           empty_backend))"
  by (simp add: onSubmit_NewProject_def replies_activities_fail_def example_form_def
        empty_backend_def insert_project_def insert_activities_def log_call_def Let_def
        project_exists_def)

section \<open>Properties of the CSV import\<close>

lemma handleCsvUpload_aborts:
  assumes "res_errors results \<noteq> []"
  shows "handleCsvUpload pf (Some (Complete results)) field_array
           = (no_effects\<lparr>console_errors := [''CSV Parsing Errors:''],
                          toasts := [Toast Destructive ''CSV Parsing Error''
                                       ''Could not parse CSV file. Check console for details.'']\<rparr>,
              field_array)"
  using assms by (simp add: handleCsvUpload_def)

lemma handleCsvUpload_replaces:
  assumes "res_errors results = []"
  shows "snd (handleCsvUpload pf (Some (Complete results)) field_array) = newActivities_of pf results"
  using assms by (simp add: handleCsvUpload_def Let_def remove_all_def append_fields_def)

lemma newActivities_of_named:
  "list_all (\<lambda>activity. act_name activity \<noteq> []) (newActivities_of pf results)"
  by (simp add: newActivities_of_def list_all_iff)

lemma or_zero_not_NaN: "or_zero x \<noteq> NaN"
  by (simp add: or_zero_def truthy_num_def)

lemma or_zero_NaN: "or_zero NaN = Num 0"
  by (simp add: or_zero_def truthy_num_def)

lemma newActivities_of_numbers:
  "list_all (\<lambda>activity. act_quantity activity \<noteq> NaN \<and> act_rate activity \<noteq> NaN)
     (newActivities_of pf results)"
  by (auto simp: newActivities_of_def list_all_iff csv_row_to_Activity_def or_zero_not_NaN)

lemma decimal_1: "decimal (Suc 0) = ''1''"
  by (simp add: decimal.simps digit_char_def)

text \<open>
  C5: a parse that produces errors aborts the import and leaves the activity list as it
  was. The handler of the second create-project page does not look at the error list:
  on a parse that reports an error next to one row, it replaces the list with that row
  and announces an import.
\<close>

theorem C5_handleCSVUpload_ignores_parse_errors:
  "res_errors example_results \<noteq> []
   \<and> handleCSVUpload Number_js ValidDate (Some (Complete example_results)) [example_old_values]
     = (no_effects\<lparr>toasts := [Toast Default_variant ''CSV Imported''
                                  ''1 activities loaded from CSV.'']\<rparr>,
        [\<lparr>av_name = ''Dig'', av_quantity = Some NaN, av_unit = Some ''m'',
          av_rate = Some (Num 5), av_start_date = None, av_end_date = None\<rparr>])"
  by (simp add: handleCSVUpload_def example_results_def example_row_def parsedActivities_of_def
        csv_row_to_values_def number_cell_def date_cell_def cell_or_empty_def truthy_str_def
        Number_js_def is_digit_def digit_value_def decimal_1 Let_def)

lemma handleCsvUpload_example:
  "map act_quantity
     (newActivities_of parseFloat_js
        \<lparr>res_data = [[''Activity Name'' \<mapsto> ''Dig'', ''Quantity'' \<mapsto> ''abc'', ''Rate'' \<mapsto> ''5'']],
         res_errors = []\<rparr>)
     = [Num 0]"
  by (simp add: newActivities_of_def csv_row_to_Activity_def cell_or_empty_def
        parseFloat_cell_def parseFloat_js_def is_digit_def or_zero_def truthy_num_def)

text \<open>
  C6: quantity and rate of an imported row are numbers, 0 when the cell cannot be read
  as a number. The handler of the second create-project page converts a non-empty cell
  with \<open>Number\<close> and keeps what comes out: the quantity of the row \<open>Dig,abc,m,5\<close> is \<open>NaN\<close>.
\<close>

theorem C6_handleCSVUpload_keeps_NaN:
  "map av_quantity
     (parsedActivities_of Number_js ValidDate \<lparr>res_data = [example_row], res_errors = []\<rparr>)
     = [Some NaN]
   \<and> map av_rate
     (parsedActivities_of Number_js ValidDate \<lparr>res_data = [example_row], res_errors = []\<rparr>)
     = [Some (Num 5)]"
  by (simp add: example_row_def parsedActivities_of_def
        csv_row_to_values_def number_cell_def date_cell_def cell_or_empty_def truthy_str_def
        Number_js_def is_digit_def digit_value_def)

section \<open>Properties of the file handlers\<close>

lemma remove_paths_single: "remove_paths [p] m = m(p := None)"
  by simp

text \<open>
  C7: when the insertion of the metadata row fails after the blob was uploaded, the
  handler asks storage to remove the blob under the very path it uploaded it to, and
  then reports the failure of the insertion in an error toast. The requests are, in
  this order, the upload, the insertion and the removal; no metadata row is added, and
  the blob is gone from storage once the removal is carried out.
\<close>

theorem C7_upload_compensation:
  assumes "usr = Some u" and "projectId_param = Some projectId" and "projectId \<noteq> []"
    and "selectedFile = Some picked"
    and "on_upload rs = Ok ()" and "on_insert_file rs = Err dbError"
  shows "calls (snd (handleFileUpload getPublicUrl now rs usr projectId_param selectedFile db))
           = calls db
             @ [Storage_upload (upload_path projectId now (file_name picked)) (file_content picked),
                Insert_files \<lparr>fp_name = file_name picked,
                              fp_url = getPublicUrl (upload_path projectId now (file_name picked)),
                              fp_project_id = projectId, fp_user_id = uid u\<rparr>,
                Storage_remove [upload_path projectId now (file_name picked)]]
         \<and> toasts (fst (handleFileUpload getPublicUrl now rs usr projectId_param selectedFile db))
           = [Toast Destructive ''Error uploading file''
                (message_or dbError ''An unexpected error occurred during upload.'')]
         \<and> files (snd (handleFileUpload getPublicUrl now rs usr projectId_param selectedFile db))
           = files db
         \<and> (on_remove_uploaded rs = Ok () \<longrightarrow>
              storage (snd (handleFileUpload getPublicUrl now rs usr projectId_param selectedFile db))
                (upload_path projectId now (file_name picked)) = None)"
  using assms
  by (auto simp: handleFileUpload_def storage_upload_def insert_file_def storage_remove_def
        log_call_def Let_def truthy_str_def cell_or_empty_def upload_caught_def no_effects_def
      split: reply.splits)

text \<open>
  C8: deleting a file first deletes the metadata row and then asks storage to remove
  the blob. When the removal fails, the metadata row stays deleted, the failure is
  written to the console only, and the handler ends with the success toast.
\<close>

theorem C8_delete_tolerates_storage_failure:
  assumes "usr = Some u" and "projectId_param = Some projectId" and "projectId \<noteq> []"
    and "on_delete_file rs = Ok ()"
  shows "calls (snd (handleDeleteFile rs True usr projectId_param fileId path db))
           = calls db @ [Delete_files_eq_id fileId, Storage_remove [path]]
         \<and> files (snd (handleDeleteFile rs True usr projectId_param fileId path db))
           = filter (\<lambda>f. f_id f \<noteq> fileId) (files db)
         \<and> toasts (fst (handleDeleteFile rs True usr projectId_param fileId path db))
           = [Toast Default_variant ''Success'' ''File deleted successfully.'']
         \<and> (on_remove_blob rs = Err storageError \<longrightarrow>
               console_errors (fst (handleDeleteFile rs True usr projectId_param fileId path db))
                 = [''Error deleting file from storage:'']
             \<and> storage (snd (handleDeleteFile rs True usr projectId_param fileId path db))
                 = storage db)"
  using assms
  by (auto simp: handleDeleteFile_def delete_file_def storage_remove_def log_call_def
        truthy_str_def no_effects_def
      split: reply.splits)

lemma upload_path_not_delete_path:
  "upload_path projectId now name \<noteq> delete_path projectId' name"
proof
  assume "upload_path projectId now name = delete_path projectId' name"
  then have "(projectId @ ''/'' @ decimal now @ ''_'') @ name
               = (''project-files/'' @ projectId' @ ''/'') @ name"
    by (simp add: upload_path_def delete_path_def)
  then have "projectId @ ''/'' @ decimal now @ ''_'' = ''project-files/'' @ projectId' @ ''/''"
    by (simp only: append_same_eq)
  then have "last (projectId @ ''/'' @ decimal now @ ''_'')
               = last (''project-files/'' @ projectId' @ ''/'')"
    by (rule arg_cong)
  then show False by simp
qed

lemma handleDeleteFile_keeps_other_paths:
  assumes "p \<noteq> path"
  shows "storage (snd (handleDeleteFile rs confirmed usr projectId_param fileId path db)) p
           = storage db p"
  using assms
  by (auto simp: handleDeleteFile_def delete_file_def storage_remove_def log_call_def
      split: reply.splits)

theorem C7_upload_compensation_witness:
  "on_upload replies_file_insert_fails = Ok ()
   \<and> on_insert_file replies_file_insert_fails = Err ''denied''
   \<and> on_remove_uploaded replies_file_insert_fails = Ok ()
   \<and> calls (snd (handleFileUpload example_getPublicUrl 1700000000000 replies_file_insert_fails
               (Some example_user) (Some ''p1'') (Some example_file) empty_backend))
       = [Storage_upload (upload_path ''p1'' 1700000000000 ''plan.pdf'') ''%PDF-1.7'',
          Insert_files \<lparr>fp_name = ''plan.pdf'',
                        fp_url = example_getPublicUrl (upload_path ''p1'' 1700000000000 ''plan.pdf''),
                        fp_project_id = ''p1'', fp_user_id = ''u1''\<rparr>,
          Storage_remove [upload_path ''p1'' 1700000000000 ''plan.pdf'']]
   \<and> toasts (fst (handleFileUpload example_getPublicUrl 1700000000000 replies_file_insert_fails
               (Some example_user) (Some ''p1'') (Some example_file) empty_backend))
       = [Toast Destructive ''Error uploading file'' ''denied'']
   \<and> storage (snd (handleFileUpload example_getPublicUrl 1700000000000 replies_file_insert_fails
               (Some example_user) (Some ''p1'') (Some example_file) empty_backend))
         (upload_path ''p1'' 1700000000000 ''plan.pdf'') = None"
proof -
  have r: "on_upload replies_file_insert_fails = Ok ()"
    "on_insert_file replies_file_insert_fails = Err ''denied''"
    "on_remove_uploaded replies_file_insert_fails = Ok ()"
    by (simp_all add: replies_file_insert_fails_def)
  have n: "''p1'' \<noteq> []" by simp
  from C7_upload_compensation
         [where u = example_user and picked = example_file and getPublicUrl = example_getPublicUrl
            and now = 1700000000000 and db = empty_backend and rs = replies_file_insert_fails
            and projectId = "''p1''" and dbError = "''denied''",
          OF refl refl n refl r(1) r(2)]
  show ?thesis
    by (simp add: r example_file_def example_user_def empty_backend_def message_or_def)
qed

theorem C8_delete_tolerates_storage_failure_witness:
  "on_delete_file replies_blob_remove_fails = Ok ()
   \<and> on_remove_blob replies_blob_remove_fails = Err ''not found''
   \<and> calls (snd (handleDeleteFile replies_blob_remove_fails True (Some example_user) (Some ''p1'')
               ''f1'' ''project-files/p1/plan.pdf'' empty_backend))
       = [Delete_files_eq_id ''f1'', Storage_remove [''project-files/p1/plan.pdf'']]
   \<and> toasts (fst (handleDeleteFile replies_blob_remove_fails True (Some example_user) (Some ''p1'')
               ''f1'' ''project-files/p1/plan.pdf'' empty_backend))
       = [Toast Default_variant ''Success'' ''File deleted successfully.'']
   \<and> console_errors (fst (handleDeleteFile replies_blob_remove_fails True (Some example_user)
               (Some ''p1'') ''f1'' ''project-files/p1/plan.pdf'' empty_backend))
       = [''Error deleting file from storage:'']"
proof -
  have r: "on_delete_file replies_blob_remove_fails = Ok ()"
    "on_remove_blob replies_blob_remove_fails = Err ''not found''"
    by (simp_all add: replies_blob_remove_fails_def)
  have n: "''p1'' \<noteq> []" by simp
  from C8_delete_tolerates_storage_failure
         [where u = example_user and fileId = "''f1''" and path = "''project-files/p1/plan.pdf''"
            and db = empty_backend and storageError = "''not found''"
            and rs = replies_blob_remove_fails and projectId = "''p1''",
          OF refl refl n r(1)]
  show ?thesis
    by (simp add: r empty_backend_def)
qed

text \<open>
  C9: a file is uploaded under \<open>projectId/timestamp_name\<close>, and the Delete button passes
  \<open>project-files/projectId/name\<close> to the removal. The two paths differ for every project
  id, timestamp and file name, so after any run of the Delete button on the row of an
  uploaded file the blob is still in storage under its upload path.
\<close>

theorem C9_delete_path_differs:
  assumes "usr = Some u" and "projectId_param = Some projectId" and "projectId \<noteq> []"
    and "selectedFile = Some picked"
    and "on_upload urs = Ok ()" and "on_insert_file urs = Ok fid"
    and "db1 = snd (handleFileUpload getPublicUrl now urs usr projectId_param selectedFile db)"
    and "row = \<lparr>f_id = fid,
                 f_cols = \<lparr>fp_name = file_name picked,
                            fp_url = getPublicUrl (upload_path projectId now (file_name picked)),
                            fp_project_id = projectId, fp_user_id = uid u\<rparr>\<rparr>"
  shows "files db1 = files db @ [row]
         \<and> storage db1 (upload_path projectId now (file_name picked)) = Some (file_content picked)
         \<and> delete_path projectId (fp_name (f_cols row)) \<noteq> upload_path projectId now (file_name picked)
         \<and> (on_delete_file drs = Ok () \<longrightarrow>
              calls (snd (delete_button drs True usr projectId_param row db1))
                = calls db1 @ [Delete_files_eq_id fid,
                               Storage_remove [delete_path projectId (file_name picked)]])
         \<and> storage (snd (delete_button drs confirmed usr' projectId_param row db1))
              (upload_path projectId now (file_name picked)) = Some (file_content picked)"
proof -
  have up: "files db1 = files db @ [row]"
    "storage db1 (upload_path projectId now (file_name picked)) = Some (file_content picked)"
    using assms
    by (auto simp: handleFileUpload_def storage_upload_def insert_file_def log_call_def Let_def
          truthy_str_def cell_or_empty_def split: reply.splits)
  have ne: "upload_path projectId now (file_name picked) \<noteq> delete_path projectId (file_name picked)"
    by (rule upload_path_not_delete_path)
  have ca: "on_delete_file drs = Ok () \<longrightarrow>
              calls (snd (delete_button drs True usr projectId_param row db1))
                = calls db1 @ [Delete_files_eq_id fid,
                               Storage_remove [delete_path projectId (file_name picked)]]"
    using assms(1-3,8)
    by (auto simp: delete_button_def handleDeleteFile_def delete_file_def storage_remove_def
          log_call_def truthy_str_def cell_or_empty_def split: reply.splits)
  have st: "storage (snd (delete_button drs confirmed usr' projectId_param row db1))
              (upload_path projectId now (file_name picked)) = Some (file_content picked)"
    using ne up(2) assms(2,8)
    by (simp add: delete_button_def handleDeleteFile_keeps_other_paths cell_or_empty_def)
  from up ne ca st assms(8) show ?thesis by auto
qed

theorem C9_delete_path_differs_witness:
  "on_upload replies_upload_ok = Ok () \<and> on_insert_file replies_upload_ok = Ok ''f1''
   \<and> on_delete_file replies_delete_ok = Ok ()
   \<and> storage
        (snd (delete_button replies_delete_ok True (Some example_user) (Some ''p1'')
                \<lparr>f_id = ''f1'',
                  f_cols = \<lparr>fp_name = ''plan.pdf'',
                             fp_url = example_getPublicUrl (upload_path ''p1'' 1700000000000 ''plan.pdf''),
                             fp_project_id = ''p1'', fp_user_id = ''u1''\<rparr>\<rparr>
                (snd (handleFileUpload example_getPublicUrl 1700000000000 replies_upload_ok
                        (Some example_user) (Some ''p1'') (Some example_file) empty_backend))))
        (upload_path ''p1'' 1700000000000 ''plan.pdf'')
      = Some ''%PDF-1.7''"
proof -
  have r: "on_upload replies_upload_ok = Ok ()" "on_insert_file replies_upload_ok = Ok ''f1''"
    "on_delete_file replies_delete_ok = Ok ()"
    by (simp_all add: replies_upload_ok_def replies_delete_ok_def)
  have n: "''p1'' \<noteq> []" by simp
  from C9_delete_path_differs
         [where u = example_user and picked = example_file and getPublicUrl = example_getPublicUrl
            and now = 1700000000000 and db = empty_backend and urs = replies_upload_ok
            and projectId = "''p1''" and fid = "''f1''" and drs = replies_delete_ok
            and confirmed = True and usr' = "Some example_user",
          OF refl refl n refl r(1) r(2) refl refl]
  show ?thesis
    by (simp add: r example_file_def example_user_def)
qed

section \<open>Properties of saving an edited project\<close>

lemma generated_ids:
  "list_all (\<lambda>x. ap_id x = None) xs \<Longrightarrow>
     map a_id (make_activity_rows gen k xs) = map gen [k..<k + length xs]"
proof (induction xs arbitrary: k)
  case Nil
  then show ?case by simp
next
  case (Cons x xs)
  have e: "[k..<k + length (x # xs)] = k # [Suc k..<Suc k + length xs]"
    using upt_conv_Cons [of k "k + length (x # xs)"] by (simp del: upt_Suc)
  have "map a_id (make_activity_rows gen k (x # xs))
          = gen k # map a_id (make_activity_rows gen (Suc k) xs)"
    using Cons.prems by simp
  also have "\<dots> = gen k # map gen [Suc k..<Suc k + length xs]"
    using Cons.IH [of "Suc k"] Cons.prems by simp
  also have "\<dots> = map gen (k # [Suc k..<Suc k + length xs])"
    by simp
  also have "\<dots> = map gen [k..<k + length (x # xs)]"
    by (simp only: e)
  finally show ?case .
qed

lemma reinsert_payload_has_no_ids:
  "list_all (\<lambda>x. ap_id x = None) (map (activity_to_reinsert i) acts)"
  by (simp add: list.pred_map comp_def activity_to_reinsert_def list.pred_True)

lemma reinsert_payload_project:
  "list_all (\<lambda>x. ap_project_id x = i) (map (activity_to_reinsert i) acts)"
  by (simp add: list.pred_map comp_def activity_to_reinsert_def activity_to_insert_def
        list.pred_True)

lemma cols_make_activity_rows: "map a_cols (make_activity_rows gen k xs) = xs"
  by (induction xs arbitrary: k) simp_all

lemma activity_to_reinsert_explicit:
  "activity_to_reinsert i a =
     \<lparr>ap_id = None, ap_project_id = i, ap_name = act_name a,
      ap_quantity = Some (or_zero (act_quantity a)), ap_unit = Some (act_unit a),
      ap_rate = Some (or_zero (act_rate a)),
      ap_start_date = act_start_date a, ap_end_date = act_end_date a\<rparr>"
  by (simp add: activity_to_reinsert_def activity_to_insert_def)

lemma update_row_explicit:
  "update_row (edit_project_payload data) i row =
     (if p_id row = i then
        row\<lparr>p_cols :=
              \<lparr>pp_name = fd_name data,
               pp_start_date = Some (fd_startDate data),
               pp_end_date = Some (fd_endDate data),
               pp_vendor = Some (fd_vendor data),
               pp_description = Some (fd_description data),
               pp_user_id = pp_user_id (p_cols row),
               pp_created_by = pp_created_by (p_cols row),
               pp_status = Some (fd_status data),
               pp_completion_percentage = Some (fd_completion_percentage data)\<rparr>\<rparr>
      else row)"
  by (simp add: update_row_def merge_cols_def keep_or_def edit_project_payload_def)

text \<open>
  C10: saving an edited project updates the project row, then deletes every activity
  row of the project, then inserts the rows of the form without their ids, so that the
  server generates new ones. The update carries the name, dates, vendor, description,
  status and completion of the form; each inserted row carries the name, unit and dates
  of its form row, the quantity and rate of the form row with 0 in place of a falsy
  number, the id of the project, and no id of its own. When that insertion fails after
  the deletion succeeded, nothing is restored: the project has no activity rows left,
  the project row carries the columns of the form, and the handler ends with the error
  toast and without navigating.
\<close>

theorem C10_edit_deletes_then_reinserts:
  assumes "usr = Some u" and "id_param = Some i" and "i \<noteq> []"
    and "on_update_project rs = Ok ()" and "on_delete_activities rs = Ok ()"
    and "payload =
           map (\<lambda>a. \<lparr>ap_id = None, ap_project_id = i, ap_name = act_name a,
                      ap_quantity = Some (or_zero (act_quantity a)),
                      ap_unit = Some (act_unit a),
                      ap_rate = Some (or_zero (act_rate a)),
                      ap_start_date = act_start_date a,
                      ap_end_date = act_end_date a\<rparr>)
               (fd_activities data)"
    and "sent =
           \<lparr>pp_name = fd_name data,
            pp_start_date = Some (fd_startDate data),
            pp_end_date = Some (fd_endDate data),
            pp_vendor = Some (fd_vendor data),
            pp_description = Some (fd_description data),
            pp_user_id = None,
            pp_created_by = None,
            pp_status = Some (fd_status data),
            pp_completion_percentage = Some (fd_completion_percentage data)\<rparr>"
    and "out = onSubmit_EditProject rs usr id_param data db"
  shows "calls (snd out)
           = calls db @ [Update_projects_eq_id sent i, Delete_activities_eq_project_id i]
                      @ (if fd_activities data = [] then [] else [Insert_activities payload])
         \<and> list_all (\<lambda>x. ap_id x = None) payload
         \<and> projects (snd out)
             = map (\<lambda>row.
                      if p_id row = i then
                        row\<lparr>p_cols :=
                              \<lparr>pp_name = fd_name data,
                               pp_start_date = Some (fd_startDate data),
                               pp_end_date = Some (fd_endDate data),
                               pp_vendor = Some (fd_vendor data),
                               pp_description = Some (fd_description data),
                               pp_user_id = pp_user_id (p_cols row),
                               pp_created_by = pp_created_by (p_cols row),
                               pp_status = Some (fd_status data),
                               pp_completion_percentage =
                                 Some (fd_completion_percentage data)\<rparr>\<rparr>
                      else row)
                 (projects db)
         \<and> (fd_activities data = [] \<or> on_reinsert_activities rs = Ok gen \<longrightarrow>
               fst out = edit_done i
             \<and> navigated (fst out) = Some (''/projects/'' @ i)
             \<and> activities (snd out)
                 = filter (\<lambda>a. ap_project_id (a_cols a) \<noteq> i) (activities db)
                   @ make_activity_rows gen 0 payload
             \<and> map a_id (activities_of i (snd out)) = map gen [0..<length (fd_activities data)]
             \<and> map a_cols (activities_of i (snd out)) = payload)
         \<and> (fd_activities data \<noteq> [] \<and> on_reinsert_activities rs = Err e \<longrightarrow>
               fst out = edit_caught e
             \<and> toasts (fst out)
                 = [Toast Destructive ''Error updating project''
                      (message_or e ''An unexpected error occurred.'')]
             \<and> navigated (fst out) = None
             \<and> activities (snd out)
                 = filter (\<lambda>a. ap_project_id (a_cols a) \<noteq> i) (activities db)
             \<and> activities_of i (snd out) = [])"
proof -
  have pl: "payload = map (activity_to_reinsert i) (fd_activities data)"
    using assms(6) by (simp add: activity_to_reinsert_explicit)
  have se: "sent = edit_project_payload data"
    using assms(7) by (simp add: edit_project_payload_def)
  have ids: "list_all (\<lambda>x. ap_id x = None) payload"
    using pl by (simp add: reinsert_payload_has_no_ids)
  have proj: "list_all (\<lambda>a. ap_project_id (a_cols a) = i) (make_activity_rows gen 0 payload)"
    using pl by (simp add: project_of_make_activity_rows reinsert_payload_project)
  have new: "filter (\<lambda>a. ap_project_id (a_cols a) = i) (make_activity_rows gen 0 payload)
               = make_activity_rows gen 0 payload"
    using proj by (simp add: list_all_iff)
  have old: "filter (\<lambda>a. ap_project_id (a_cols a) = i)
               (filter (\<lambda>a. ap_project_id (a_cols a) \<noteq> i) (activities db)) = []"
    by (simp add: filter_empty_conv)
  have len: "length payload = length (fd_activities data)"
    using pl by simp
  have c: "calls (snd out)
           = calls db @ [Update_projects_eq_id sent i, Delete_activities_eq_project_id i]
                      @ (if fd_activities data = [] then [] else [Insert_activities payload])"
    and p0: "projects (snd out) = map (update_row (edit_project_payload data) i) (projects db)"
    using assms(1-5,8) pl se
    by (auto simp: onSubmit_EditProject_def update_project_def delete_activities_of_def
          insert_activities_def log_call_def truthy_str_def cell_or_empty_def Let_def
        split: reply.splits)
  have p: "projects (snd out)
             = map (\<lambda>row.
                      if p_id row = i then
                        row\<lparr>p_cols :=
                              \<lparr>pp_name = fd_name data,
                               pp_start_date = Some (fd_startDate data),
                               pp_end_date = Some (fd_endDate data),
                               pp_vendor = Some (fd_vendor data),
                               pp_description = Some (fd_description data),
                               pp_user_id = pp_user_id (p_cols row),
                               pp_created_by = pp_created_by (p_cols row),
                               pp_status = Some (fd_status data),
                               pp_completion_percentage =
                                 Some (fd_completion_percentage data)\<rparr>\<rparr>
                      else row)
                 (projects db)"
    unfolding p0 by (rule map_cong [OF refl]) (simp only: update_row_explicit)
  have ok: "fd_activities data = [] \<or> on_reinsert_activities rs = Ok gen \<longrightarrow>
               fst out = edit_done i
             \<and> activities (snd out)
                 = filter (\<lambda>a. ap_project_id (a_cols a) \<noteq> i) (activities db)
                   @ make_activity_rows gen 0 payload"
    using assms(1-5,8) pl
    by (auto simp: onSubmit_EditProject_def update_project_def delete_activities_of_def
          insert_activities_def log_call_def truthy_str_def cell_or_empty_def Let_def)
  have ok_nav: "fd_activities data = [] \<or> on_reinsert_activities rs = Ok gen \<longrightarrow>
               navigated (fst out) = Some (''/projects/'' @ i)"
    using ok by (auto simp: edit_done_def no_effects_def)
  have ok_ids: "fd_activities data = [] \<or> on_reinsert_activities rs = Ok gen \<longrightarrow>
               map a_id (activities_of i (snd out)) = map gen [0..<length (fd_activities data)]"
    using ok new old generated_ids [OF ids, of gen 0] len
    by (simp add: activities_of_def)
  have ok_cols: "fd_activities data = [] \<or> on_reinsert_activities rs = Ok gen \<longrightarrow>
               map a_cols (activities_of i (snd out)) = payload"
    using ok new old cols_make_activity_rows [of gen 0 payload]
    by (simp add: activities_of_def)
  have err: "fd_activities data \<noteq> [] \<and> on_reinsert_activities rs = Err e \<longrightarrow>
               fst out = edit_caught e
             \<and> activities (snd out)
                 = filter (\<lambda>a. ap_project_id (a_cols a) \<noteq> i) (activities db)"
    using assms(1-5,8) pl
    by (auto simp: onSubmit_EditProject_def update_project_def delete_activities_of_def
          insert_activities_def log_call_def truthy_str_def cell_or_empty_def Let_def)
  have err_fx: "fd_activities data \<noteq> [] \<and> on_reinsert_activities rs = Err e \<longrightarrow>
               toasts (fst out)
                 = [Toast Destructive ''Error updating project''
                      (message_or e ''An unexpected error occurred.'')]
             \<and> navigated (fst out) = None"
    using err by (auto simp: edit_caught_def no_effects_def)
  have err_none: "fd_activities data \<noteq> [] \<and> on_reinsert_activities rs = Err e \<longrightarrow>
               activities_of i (snd out) = []"
    using err old by (simp add: activities_of_def)
  from c ids p ok ok_nav ok_ids ok_cols err err_fx err_none show ?thesis by blast
qed

theorem C10_edit_deletes_then_reinserts_witness:
  "on_update_project replies_reinsert_fails = Ok ()
   \<and> on_delete_activities replies_reinsert_fails = Ok ()
   \<and> on_reinsert_activities replies_reinsert_fails = Err ''insert failed''
   \<and> on_reinsert_activities replies_edit_ok = Ok example_ids
   \<and> fd_activities example_edit \<noteq> []
   \<and> activities_of ''p1'' example_backend \<noteq> []
   \<and> activities_of ''p1''
        (snd (onSubmit_EditProject replies_reinsert_fails (Some example_user) (Some ''p1'')
                example_edit example_backend)) = []
   \<and> map p_cols
        (projects (snd (onSubmit_EditProject replies_reinsert_fails (Some example_user)
                          (Some ''p1'') example_edit example_backend)))
      = [\<lparr>pp_name = ''Bridge 2'', pp_start_date = Some ''2025-01-01'',
          pp_end_date = Some ''2025-03-01'', pp_vendor = Some ''Acme'',
          pp_description = Some [], pp_user_id = Some ''u1'', pp_created_by = None,
          pp_status = Some ''delayed'', pp_completion_percentage = Some (Num 10)\<rparr>]
   \<and> toasts (fst (onSubmit_EditProject replies_reinsert_fails (Some example_user) (Some ''p1'')
            example_edit example_backend))
      = [Toast Destructive ''Error updating project'' ''insert failed'']
   \<and> activities_of ''p1''
        (snd (onSubmit_EditProject replies_edit_ok (Some example_user) (Some ''p1'')
                example_edit example_backend))
      = [\<lparr>a_id = ''a'',
          a_cols = \<lparr>ap_id = None, ap_project_id = ''p1'', ap_name = ''Dig'',
                     ap_quantity = Some (Num 2), ap_unit = Some ''m'', ap_rate = Some (Num 0),
                     ap_start_date = None, ap_end_date = None\<rparr>\<rparr>]"
proof -
  have r: "on_update_project replies_reinsert_fails = Ok ()"
    "on_delete_activities replies_reinsert_fails = Ok ()"
    "on_reinsert_activities replies_reinsert_fails = Err ''insert failed''"
    by (simp_all add: replies_reinsert_fails_def)
  have r': "on_update_project replies_edit_ok = Ok ()"
    "on_delete_activities replies_edit_ok = Ok ()"
    "on_reinsert_activities replies_edit_ok = Ok example_ids"
    by (simp_all add: replies_edit_ok_def)
  have n: "''p1'' \<noteq> []" by simp
  have a: "fd_activities example_edit \<noteq> []"
    by (simp add: example_edit_def)
  have b: "activities_of ''p1'' example_backend \<noteq> []"
    by (simp add: activities_of_def example_backend_def activity_to_insert_def)
  have f: "fd_activities example_edit = [example_Activity\<lparr>act_id := Some ''old''\<rparr>]"
    "fd_name example_edit = ''Bridge 2''" "fd_startDate example_edit = ''2025-01-01''"
    "fd_endDate example_edit = ''2025-03-01''" "fd_vendor example_edit = ''Acme''"
    "fd_description example_edit = []" "fd_status example_edit = ''delayed''"
    "fd_completion_percentage example_edit = Num 10"
    by (simp_all add: example_edit_def)
  have d: "projects example_backend
             = [\<lparr>p_id = ''p1'', p_cols = new_project_payload example_user example_form\<rparr>]"
    "activities example_backend
             = [\<lparr>a_id = ''old'', a_cols = activity_to_insert ''p1'' example_Activity\<rparr>]"
    by (simp_all add: example_backend_def)
  note fail = C10_edit_deletes_then_reinserts
         [where u = example_user and i = "''p1''" and rs = replies_reinsert_fails
            and data = example_edit and db = example_backend and e = "''insert failed''",
          OF refl refl n r(1) r(2) refl refl refl]
  note good = C10_edit_deletes_then_reinserts
         [where u = example_user and i = "''p1''" and rs = replies_edit_ok
            and data = example_edit and db = example_backend and gen = example_ids,
          OF refl refl n r'(1) r'(2) refl refl refl]
  have g1: "map a_id (activities_of ''p1''
               (snd (onSubmit_EditProject replies_edit_ok (Some example_user) (Some ''p1'')
                       example_edit example_backend))) = [''a'']"
    using good r'(3) by (simp add: f example_ids_def)
  have g2: "map a_cols (activities_of ''p1''
               (snd (onSubmit_EditProject replies_edit_ok (Some example_user) (Some ''p1'')
                       example_edit example_backend)))
            = [\<lparr>ap_id = None, ap_project_id = ''p1'', ap_name = ''Dig'',
                 ap_quantity = Some (Num 2), ap_unit = Some ''m'', ap_rate = Some (Num 0),
                 ap_start_date = None, ap_end_date = None\<rparr>]"
    using good r'(3)
    by (simp add: f example_Activity_def or_zero_def truthy_num_def)
  have g: "activities_of ''p1''
               (snd (onSubmit_EditProject replies_edit_ok (Some example_user) (Some ''p1'')
                       example_edit example_backend))
      = [\<lparr>a_id = ''a'',
          a_cols = \<lparr>ap_id = None, ap_project_id = ''p1'', ap_name = ''Dig'',
                     ap_quantity = Some (Num 2), ap_unit = Some ''m'', ap_rate = Some (Num 0),
                     ap_start_date = None, ap_end_date = None\<rparr>\<rparr>]"
    using g1 g2 by (cases "activities_of ''p1''
               (snd (onSubmit_EditProject replies_edit_ok (Some example_user) (Some ''p1'')
                       example_edit example_backend))") auto
  have pj: "map p_cols
        (projects (snd (onSubmit_EditProject replies_reinsert_fails (Some example_user)
                          (Some ''p1'') example_edit example_backend)))
      = [\<lparr>pp_name = ''Bridge 2'', pp_start_date = Some ''2025-01-01'',
          pp_end_date = Some ''2025-03-01'', pp_vendor = Some ''Acme'',
          pp_description = Some [], pp_user_id = Some ''u1'', pp_created_by = None,
          pp_status = Some ''delayed'', pp_completion_percentage = Some (Num 10)\<rparr>]"
    using fail by (simp add: f d new_project_payload_def example_user_def)
  have ts: "toasts (fst (onSubmit_EditProject replies_reinsert_fails (Some example_user) (Some ''p1'')
            example_edit example_backend))
      = [Toast Destructive ''Error updating project'' ''insert failed'']"
    and em: "activities_of ''p1''
        (snd (onSubmit_EditProject replies_reinsert_fails (Some example_user) (Some ''p1'')
                example_edit example_backend)) = []"
    using fail r(3) a by (simp_all add: message_or_def edit_caught_def no_effects_def)
  from r r'(3) a b em pj ts g show ?thesis by simp
qed

end
